theory Spec2Isabelle
  imports Complex_Main "HOL-Library.AList"
begin

section \<open>Values shared by the registry, the dispatcher and the agent\<close>

text \<open>
  Tool arguments and tool results are JSON documents. A Python \<open>dict\<close> with string keys is
  an association list whose keys are distinct; \<open>d.get(k)\<close> is \<open>map_of d k\<close>.
\<close>

datatype json =
    JNull
  | JBool bool
  | JNum int
  | JStr string
  | JList "json list"
  | JDict "(string \<times> json) list"

type_synonym kwargs = "(string \<times> json) list"

text \<open>\<open>s.startswith(p)\<close>.\<close>

definition startswith :: "string \<Rightarrow> string \<Rightarrow> bool" where
  "startswith s p = (take (length p) s = p)"

text \<open>The apostrophe of the messages built with \<open>f"Tool '{tool_name}' ..."\<close>.\<close>

definition apostrophe :: char where
  "apostrophe = CHR 0x27"

section \<open>Tool registry (\<open>src/tool_registry.py\<close>)\<close>

text \<open>
  A tool implementation is a call out to an external command: it reads and changes the
  world \<open>'w\<close> outside the process. \<open>Inl msg\<close> is a raised \<open>Exception\<close> \<open>e\<close> with
  \<open>str(e) = msg\<close>; \<open>Inr v\<close> is a normal return.
\<close>

type_synonym 'w impl = "kwargs \<Rightarrow> 'w \<Rightarrow> (string + json) \<times> 'w"

text \<open>
  One entry of the \<open>"tools"\<close> array of the catalog document, and one entry of its
  \<open>"parameters"\<close> array. A field read with \<open>.get\<close> is \<open>None\<close> when the key is absent.
\<close>

record param_def =
  param_name :: "string option"
  param_type :: "string option"
  param_description :: "string option"
  param_required :: "bool option"

record tool_def =
  td_name :: "string option"
  td_description :: "string option"
  td_parameters :: "param_def list option"

text \<open>
  An attribute of an implementation module is callable or not; a module is its namespace.
  \<open>dir(module)\<close> lists the names, \<open>getattr(module, name)\<close> reads one.
\<close>

datatype 'f attr = Callable 'f | NotCallable

type_synonym 'f pymodule = "(string \<times> 'f attr) list"

definition dir_names :: "'f pymodule \<Rightarrow> string list" where
  "dir_names m = map fst m"

definition getattr :: "'f pymodule \<Rightarrow> string \<Rightarrow> 'f attr option" where
  "getattr m n = map_of m n"

record 'w ToolRegistry =
  tools :: "(string \<times> tool_def) list"
  implementations :: "string \<rightharpoonup> 'w impl"

text \<open>
  \<open>_load_tool_definitions\<close>: every definition with a non-empty name is stored under its
  name. Assigning to a key a \<open>dict\<close> already holds replaces the value in place.
\<close>

fun load_tool_definitions ::
  "tool_def list \<Rightarrow> (string \<times> tool_def) list \<Rightarrow> (string \<times> tool_def) list" where
  "load_tool_definitions [] ts = ts"
| "load_tool_definitions (d # ds) ts =
     (case td_name d of
        None \<Rightarrow> load_tool_definitions ds ts
      | Some n \<Rightarrow>
          if n = [] then load_tool_definitions ds ts
          else load_tool_definitions ds (AList.update n d ts))"

text \<open>
  \<open>_load_implementations\<close>, the inner loop over \<open>dir(module)\<close>: a name that does not
  start with an underscore, is a catalog name and is bound to a callable is assigned,
  whatever \<open>self.implementations\<close> held under that name before.
\<close>

fun load_module_attrs ::
  "(string \<times> tool_def) list \<Rightarrow> 'f pymodule \<Rightarrow> string list \<Rightarrow>
   (string \<rightharpoonup> 'f) \<Rightarrow> (string \<rightharpoonup> 'f)" where
  "load_module_attrs ts m [] impls = impls"
| "load_module_attrs ts m (attr_name # rest) impls =
     (if \<not> startswith attr_name ''_'' \<and> map_of ts attr_name \<noteq> None
      then (case getattr m attr_name of
              Some (Callable f) \<Rightarrow> load_module_attrs ts m rest (impls(attr_name \<mapsto> f))
            | _ \<Rightarrow> load_module_attrs ts m rest impls)
      else load_module_attrs ts m rest impls)"

text \<open>The outer loop over \<open>tool_modules\<close>, in the order of the list.\<close>

fun load_modules ::
  "(string \<times> tool_def) list \<Rightarrow> 'f pymodule list \<Rightarrow> (string \<rightharpoonup> 'f) \<Rightarrow> (string \<rightharpoonup> 'f)" where
  "load_modules ts [] impls = impls"
| "load_modules ts (m # ms) impls =
     load_modules ts ms (load_module_attrs ts m (dir_names m) impls)"

definition load_implementations ::
  "(string \<times> tool_def) list \<Rightarrow> 'f pymodule list \<Rightarrow> (string \<rightharpoonup> 'f)" where
  "load_implementations ts tool_modules = load_modules ts tool_modules Map.empty"

text \<open>\<open>ToolRegistry.__init__\<close> on the parsed catalog and the implementation modules.\<close>

definition new_registry :: "tool_def list \<Rightarrow> 'w impl pymodule list \<Rightarrow> 'w ToolRegistry" where
  "new_registry schema_tools tool_modules =
     (let ts = load_tool_definitions schema_tools []
      in \<lparr>tools = ts, implementations = load_implementations ts tool_modules\<rparr>)"

text \<open>
  What one module offers for a name: the callable that the inner loop would assign.
\<close>

definition module_binding ::
  "(string \<times> tool_def) list \<Rightarrow> 'f pymodule \<Rightarrow> string \<Rightarrow> 'f option" where
  "module_binding ts m n =
     (if n \<in> set (dir_names m) \<and> \<not> startswith n ''_'' \<and> map_of ts n \<noteq> None
      then (case getattr m n of Some (Callable f) \<Rightarrow> Some f | _ \<Rightarrow> None)
      else None)"

text \<open>The outcome dictionary of \<open>execute_tool\<close>.\<close>

datatype outcome = Success json | Failure string

definition get_tool_implementation :: "'w ToolRegistry \<Rightarrow> string \<Rightarrow> 'w impl option" where
  "get_tool_implementation reg tool_name = implementations reg tool_name"

definition not_implemented :: "string \<Rightarrow> string" where
  "not_implemented tool_name =
     ''Tool '' @ [apostrophe] @ tool_name @ [apostrophe] @ '' not implemented''"

text \<open>
  \<open>execute_tool(self, tool_name, **kwargs)\<close>, the body: an exception of the implementation
  is caught and becomes a failure.
\<close>

definition execute_tool ::
  "'w ToolRegistry \<Rightarrow> string \<Rightarrow> kwargs \<Rightarrow> 'w \<Rightarrow> outcome \<times> 'w" where
  "execute_tool reg tool_name kw w =
     (case get_tool_implementation reg tool_name of
        None \<Rightarrow> (Failure (not_implemented tool_name), w)
      | Some impl \<Rightarrow>
          (case impl kw w of
             (Inr result, w') \<Rightarrow> (Success result, w')
           | (Inl e, w') \<Rightarrow> (Failure e, w')))"

text \<open>
  The call \<open>self.registry.execute_tool(tool_name, **arguments)\<close>: a key of \<open>arguments\<close>
  that is the name of one of the two positional parameters makes the call itself raise
  \<open>TypeError\<close>, before the body runs; the message names the first such key.
\<close>

definition multiple_values :: "string \<Rightarrow> string" where
  "multiple_values k =
     ''ToolRegistry.execute_tool() got multiple values for argument ''
       @ [apostrophe] @ k @ [apostrophe]"

definition call_execute_tool ::
  "'w ToolRegistry \<Rightarrow> string \<Rightarrow> kwargs \<Rightarrow> 'w \<Rightarrow> string + (outcome \<times> 'w)" where
  "call_execute_tool reg tool_name arguments w =
     (case find (\<lambda>k. k = ''self'' \<or> k = ''tool_name'') (map fst arguments) of
        Some k \<Rightarrow> Inl (multiple_values k)
      | None \<Rightarrow> Inr (execute_tool reg tool_name arguments w))"

section \<open>Protocol dispatcher (\<open>src/unified_mcp_server.py\<close>)\<close>

text \<open>
  \<open>json.dumps\<close> and \<open>time.time\<close> belong to the Python library, not to the repository:
  the dispatcher takes them as parameters. \<open>json_dumps SortKeys\<close> is
  \<open>json.dumps(_, sort_keys=True)\<close>, \<open>json_dumps Compact\<close> is
  \<open>json.dumps(_, separators=(',', ':'))\<close> and \<open>json_dumps Indent2\<close> is
  \<open>json.dumps(_, indent=2)\<close>; \<open>str_json\<close> is \<open>str\<close> as an f-string applies it. The
  clock is read off the world; a tool that runs moves it.

  The graph executor is a library too. The repository runs its graph without any
  configuration, so the executor applies its own default limit on the number of node
  executions: \<open>recursion_limit\<close>. When the limit is used up before the graph reaches its
  end the executor raises an exception whose text is \<open>recursion_error\<close>.
\<close>

datatype dumps_style = SortKeys | Compact | Indent2

record 'w runtime =
  json_dumps :: "dumps_style \<Rightarrow> json \<Rightarrow> string"
  time_time :: "'w \<Rightarrow> real"
  str_json :: "json \<Rightarrow> string"
  recursion_limit :: nat
  recursion_error :: string

text \<open>The schema object that \<open>tools/list\<close> renders for one catalog entry.\<close>

record prop_def =
  prop_type :: string
  prop_description :: string
  prop_examples :: "string list option"
  prop_enum :: "string list option"

record tool_schema =
  ts_name :: "string option"
  ts_description :: string
  ts_properties :: "(string option \<times> prop_def) list"
  ts_required :: "string option list option"

text \<open>
  An entry of the \<open>tools/list\<close> answer: a rendered catalog entry, or one of the three
  literal orchestration entries, kept by name.
\<close>

datatype listed_tool = DirectTool tool_schema | SubagenticTool string

datatype result =
    InitializeResult (direct_tools: nat) (langgraph_flag: bool) (subagentic_tools: nat)
  | ToolsResult "listed_tool list"
  | ContentResult string

datatype rpc_error = RpcError (code: int) (message: string)

text \<open>
  What \<open>send_response(id, result, error)\<close> writes: the \<open>id\<close> when it is not \<open>None\<close>, and
  the error when one is given, the result otherwise.
\<close>

datatype response = Response (resp_id: "json option") (resp_body: "rpc_error + result")

definition send_result :: "json option \<Rightarrow> result \<Rightarrow> response" where
  "send_result request_id r = Response request_id (Inr r)"

definition send_error :: "json option \<Rightarrow> int \<Rightarrow> string \<Rightarrow> response" where
  "send_error request_id c msg = Response request_id (Inl (RpcError c msg))"

text \<open>The fields of \<open>UnifiedMCPServer\<close>.\<close>

record 'w UnifiedMCPServer =
  registry :: "'w ToolRegistry"
  initialized :: bool
  langgraph_enabled :: bool
  tool_cache :: "string \<rightharpoonup> (real \<times> tool_schema)"
  response_cache :: "string \<rightharpoonup> (real \<times> result)"
  cache_ttl :: real

definition new_server :: "'w ToolRegistry \<Rightarrow> bool \<Rightarrow> 'w UnifiedMCPServer" where
  "new_server reg lg_available =
     \<lparr>registry = reg, initialized = False, langgraph_enabled = lg_available,
      tool_cache = Map.empty, response_cache = Map.empty, cache_ttl = 300\<rparr>"

text \<open>
  A handler returns what it wrote (at most one response), the server and the world it
  leaves; \<open>Inl msg\<close> is an exception that leaves the handler. \<open>None\<close> is a handler that
  does not return.
\<close>

type_synonym 'w handled = "((string + response option) \<times> 'w UnifiedMCPServer \<times> 'w) option"

definition handle_initialize ::
  "json option \<Rightarrow> 'w UnifiedMCPServer \<Rightarrow> 'w \<Rightarrow> 'w handled" where
  "handle_initialize request_id srv w =
     (let srv' = srv\<lparr>initialized := True\<rparr>
      in Some (Inr (Some (send_result request_id
                 (InitializeResult (length (tools (registry srv')))
                    (langgraph_enabled srv')
                    (if langgraph_enabled srv' then 3 else 0)))), srv', w))"

text \<open>\<open>str(x)\<close> inside an f-string, for a value that may be \<open>None\<close>.\<close>

definition py_str :: "string option \<Rightarrow> string" where
  "py_str x = (case x of None \<Rightarrow> ''None'' | Some s \<Rightarrow> s)"

definition render_property :: "param_def \<Rightarrow> prop_def" where
  "render_property p =
     (let pn = param_name p;
          base = \<lparr>prop_type = (case param_type p of None \<Rightarrow> ''string'' | Some t \<Rightarrow> t),
                  prop_description =
                    (case param_description p of
                       None \<Rightarrow> py_str pn @ '' parameter'' | Some d \<Rightarrow> d),
                  prop_examples = None, prop_enum = None\<rparr>
      in if pn = Some ''project_path''
         then base\<lparr>prop_examples := Some [''/path/to/MyApp.xcodeproj'', ''./MyApp.xcodeproj'']\<rparr>
         else if pn = Some ''scheme''
         then base\<lparr>prop_examples := Some [''MyApp'', ''MyAppTests'']\<rparr>
         else if pn = Some ''device_name''
         then base\<lparr>prop_examples := Some [''iPhone 15 Pro'', ''iPad Pro'']\<rparr>
         else if pn = Some ''bundle_id''
         then base\<lparr>prop_examples := Some [''com.example.MyApp'']\<rparr>
         else if pn = Some ''configuration''
         then base\<lparr>prop_enum := Some [''Debug'', ''Release'']\<rparr>
         else base)"

fun render_params ::
  "param_def list \<Rightarrow> (string option \<times> prop_def) list \<Rightarrow> string option list \<Rightarrow>
   (string option \<times> prop_def) list \<times> string option list" where
  "render_params [] properties required = (properties, required)"
| "render_params (p # ps) properties required =
     render_params ps (AList.update (param_name p) (render_property p) properties)
       (if param_required p \<noteq> Some False then required @ [param_name p] else required)"

definition render_schema :: "tool_def \<Rightarrow> tool_schema" where
  "render_schema d =
     (case render_params (case td_parameters d of None \<Rightarrow> [] | Some ps \<Rightarrow> ps) [] [] of
        (properties, required) \<Rightarrow>
          \<lparr>ts_name = td_name d,
           ts_description = (case td_description d of None \<Rightarrow> [] | Some s \<Rightarrow> s),
           ts_properties = properties,
           ts_required = (if required = [] then None else Some required)\<rparr>)"

text \<open>\<open>_get_tool_schema_enhanced\<close>: a cached schema younger than the TTL is returned as it is.\<close>

definition get_tool_schema_enhanced ::
  "'w runtime \<Rightarrow> tool_def \<Rightarrow> 'w UnifiedMCPServer \<Rightarrow> 'w \<Rightarrow> tool_schema \<times> 'w UnifiedMCPServer" where
  "get_tool_schema_enhanced rt d srv w =
     (let cache_key = ''schema_'' @ py_str (td_name d);
          fresh = render_schema d;
          stored = (fresh, srv\<lparr>tool_cache := (tool_cache srv)(cache_key \<mapsto> (time_time rt w, fresh))\<rparr>)
      in case tool_cache srv cache_key of
           Some (cached_time, cached_schema) \<Rightarrow>
             if time_time rt w - cached_time < cache_ttl srv then (cached_schema, srv)
             else stored
         | None \<Rightarrow> stored)"

fun render_all ::
  "'w runtime \<Rightarrow> tool_def list \<Rightarrow> 'w UnifiedMCPServer \<Rightarrow> 'w \<Rightarrow>
   tool_schema list \<times> 'w UnifiedMCPServer" where
  "render_all rt [] srv w = ([], srv)"
| "render_all rt (d # ds) srv w =
     (case get_tool_schema_enhanced rt d srv w of
        (s, srv') \<Rightarrow> (case render_all rt ds srv' w of (ss, srv'') \<Rightarrow> (s # ss, srv'')))"

definition list_tools :: "'w ToolRegistry \<Rightarrow> tool_def list" where
  "list_tools reg = map snd (tools reg)"

definition handle_tools_list ::
  "'w runtime \<Rightarrow> json option \<Rightarrow> 'w UnifiedMCPServer \<Rightarrow> 'w \<Rightarrow> 'w handled" where
  "handle_tools_list rt request_id srv w =
     (case render_all rt (list_tools (registry srv)) srv w of
        (schemas, srv') \<Rightarrow>
          Some (Inr (Some (send_result request_id
                  (ToolsResult (map DirectTool schemas @
                     (if langgraph_enabled srv
                      then map SubagenticTool
                             [''langgraph_agent'', ''langgraph_workflow'', ''langgraph_status'']
                      else []))))), srv', w))"

text \<open>
  The \<open>params\<close> of a \<open>tools/call\<close>: \<open>params.get("name")\<close> and
  \<open>params.get("arguments", {})\<close>, a JSON object.
\<close>

record call_params =
  cp_name :: "string option"
  cp_arguments :: kwargs

definition response_cache_key :: "'w runtime \<Rightarrow> string \<Rightarrow> kwargs \<Rightarrow> string" where
  "response_cache_key rt tool_name arguments =
     ''tool_'' @ tool_name @ ''_'' @ json_dumps rt SortKeys (JDict arguments)"

text \<open>
  The orchestration handler is a parameter of the dispatcher: it answers with one response
  and the world it leaves, or does not return.
\<close>

type_synonym 'w langgraph_handler =
  "'w UnifiedMCPServer \<Rightarrow> string \<Rightarrow> kwargs \<Rightarrow> json option \<Rightarrow> 'w \<Rightarrow>
   (response \<times> 'w) option"

text \<open>The part of \<open>handle_tools_call\<close> after a cache miss: execute, answer, store.\<close>

definition execute_and_store ::
  "'w runtime \<Rightarrow> string \<Rightarrow> kwargs \<Rightarrow> json option \<Rightarrow> 'w UnifiedMCPServer \<Rightarrow> 'w \<Rightarrow> 'w handled" where
  "execute_and_store rt tool_name arguments request_id srv w =
     (case call_execute_tool (registry srv) tool_name arguments w of
        Inl e \<Rightarrow> Some (Inl e, srv, w)
      | Inr (Failure msg, w') \<Rightarrow> Some (Inr (Some (send_error request_id (- 32000) msg)), srv, w')
      | Inr (Success r, w') \<Rightarrow>
          (let resp = ContentResult (json_dumps rt Compact r);
               cache_key = response_cache_key rt tool_name arguments
           in Some (Inr (Some (send_result request_id resp)),
                    srv\<lparr>response_cache :=
                          (response_cache srv)(cache_key \<mapsto> (time_time rt w', resp))\<rparr>,
                    w')))"

definition handle_tools_call ::
  "'w runtime \<Rightarrow> 'w langgraph_handler \<Rightarrow> call_params \<Rightarrow> json option \<Rightarrow>
   'w UnifiedMCPServer \<Rightarrow> 'w \<Rightarrow> 'w handled" where
  "handle_tools_call rt lg params request_id srv w =
     (case cp_name params of
        None \<Rightarrow>
          Some (Inr (Some (send_error request_id (- 32602)
                  ''Invalid params: tool name required'')), srv, w)
      | Some tool_name \<Rightarrow>
          if tool_name = [] then
            Some (Inr (Some (send_error request_id (- 32602)
                    ''Invalid params: tool name required'')), srv, w)
          else if startswith tool_name ''langgraph_'' then
            (if \<not> langgraph_enabled srv then
               Some (Inr (Some (send_error request_id (- 32001)
                 ''LangGraph not available. Install with: pip install langgraph langchain'')),
                 srv, w)
             else (case lg srv tool_name (cp_arguments params) request_id w of
                     None \<Rightarrow> None
                   | Some (resp, w') \<Rightarrow> Some (Inr (Some resp), srv, w')))
          else
            (case response_cache srv
                    (response_cache_key rt tool_name (cp_arguments params)) of
               Some (cached_time, cached_result) \<Rightarrow>
                 if time_time rt w - cached_time < cache_ttl srv
                 then Some (Inr (Some (send_result request_id cached_result)), srv, w)
                 else execute_and_store rt tool_name (cp_arguments params) request_id srv w
             | None \<Rightarrow>
                 execute_and_store rt tool_name (cp_arguments params) request_id srv w))"

text \<open>A parsed JSON-RPC request: \<open>request.get("method")\<close>, \<open>"params"\<close> and \<open>"id"\<close>.\<close>

record request =
  req_method :: "string option"
  req_params :: call_params
  req_id :: "json option"

definition handle_request ::
  "'w runtime \<Rightarrow> 'w langgraph_handler \<Rightarrow> request \<Rightarrow>
   'w UnifiedMCPServer \<Rightarrow> 'w \<Rightarrow> 'w handled" where
  "handle_request rt lg req srv w =
     (let method = req_method req; params = req_params req; request_id = req_id req
      in if method = Some ''initialize'' then handle_initialize request_id srv w
         else if method = Some ''tools/list'' then
           (if \<not> initialized srv
            then Some (Inr (Some (send_error request_id (- 32002) ''Server not initialized'')),
                       srv, w)
            else handle_tools_list rt request_id srv w)
         else if method = Some ''tools/call'' then
           (if \<not> initialized srv
            then Some (Inr (Some (send_error request_id (- 32002) ''Server not initialized'')),
                       srv, w)
            else handle_tools_call rt lg params request_id srv w)
         else if method = Some ''notifications/initialized'' then Some (Inr None, srv, w)
         else Some (Inr (Some (send_error request_id (- 32601)
                      (''Method not found: '' @ py_str method))), srv, w))"

text \<open>
  One turn of \<open>run\<close> on a parsed line: an exception that leaves \<open>handle_request\<close> is
  answered with \<open>-32603\<close> and no \<open>id\<close>.
\<close>

definition run_request ::
  "'w runtime \<Rightarrow> 'w langgraph_handler \<Rightarrow> request \<Rightarrow>
   'w UnifiedMCPServer \<Rightarrow> 'w \<Rightarrow> (response option \<times> 'w UnifiedMCPServer \<times> 'w) option" where
  "run_request rt lg req srv w =
     (case handle_request rt lg req srv w of
        None \<Rightarrow> None
      | Some (Inl e, srv', w') \<Rightarrow>
          Some (Some (send_error None (- 32603) (''Internal error: '' @ e)), srv', w')
      | Some (Inr out, srv', w') \<Rightarrow> Some (out, srv', w'))"

text \<open>A session: requests served one after the other, each in the world the last one left.\<close>

fun run_requests ::
  "'w runtime \<Rightarrow> 'w langgraph_handler \<Rightarrow> request list \<Rightarrow>
   'w UnifiedMCPServer \<Rightarrow> 'w \<Rightarrow> (response option list \<times> 'w UnifiedMCPServer \<times> 'w) option" where
  "run_requests rt lg [] srv w = Some ([], srv, w)"
| "run_requests rt lg (r # rs) srv w =
     (case run_request rt lg r srv w of
        None \<Rightarrow> None
      | Some (out, srv', w') \<Rightarrow>
          (case run_requests rt lg rs srv' w' of
             None \<Rightarrow> None
           | Some (outs, srv'', w'') \<Rightarrow> Some (out # outs, srv'', w'')))"

section \<open>Orchestration loop (\<open>src/langgraph_agent.py\<close>)\<close>

text \<open>
  An entry of \<open>AIMessage.tool_calls\<close>: a name, an argument object and an optional id.
  On an entry of this shape the fallbacks of \<open>_tools_node\<close> to a \<open>"function"\<close> entry
  give the same name and the same arguments, so the record keeps the three keys only.
  A conversation message carries its content; only an \<open>AIMessage\<close> has \<open>tool_calls\<close>,
  and the flag says whether it also carries a non-empty \<open>function_calls\<close> attribute.
\<close>

record tool_call =
  tc_name :: string
  tc_args :: kwargs
  tc_id :: "string option"

datatype message =
    HumanMessage json
  | AIMessage json "tool_call list" bool
  | ToolMessage string string

text \<open>An entry of \<open>tool_results\<close>: the keys \<open>tool\<close>, \<open>result\<close>, \<open>error\<close>, \<open>success\<close>.\<close>

datatype tool_result =
  ToolResult (tr_tool: string) (tr_result: "string option") (tr_error: "string option")
    (tr_success: bool)

record AgentState =
  messages :: "message list"
  tool_results :: "tool_result list"
  current_task :: json

text \<open>
  The reasoning function \<open>llm_with_tools.invoke\<close>: it answers the conversation with a
  message, or raises.
\<close>

type_synonym llm = "message list \<Rightarrow> string + message"

text \<open>
  A wrapped tool. \<open>make_tool\<close> applies the \<open>@tool\<close> decorator to the function
  \<open>tool_wrapper\<close> first: the tool object takes its \<open>name\<close> and its \<open>description\<close> from
  the function as it is then, so every tool is named \<open>tool_wrapper\<close> and described by the
  docstring of the wrapper. Only afterwards are \<open>__name__\<close> and \<open>__doc__\<close> of the tool
  object set to the registry name and the catalog description; \<open>_tools_node\<close> compares
  \<open>tool.name\<close>, not these.
\<close>

record 'w lc_tool =
  lc_name :: string
  lc_description :: string
  lc_dunder_name :: string
  lc_dunder_doc :: string
  lc_func :: "'w impl"

definition key_tools :: "string list" where
  "key_tools =
     [''list_projects'', ''check_xcode_cli'', ''list_devices'', ''list_schemes'',
      ''get_llm_status'', ''build_project'', ''run_tests'', ''boot_simulator'']"

fun wrap_tools :: "'w ToolRegistry \<Rightarrow> string list \<Rightarrow> 'w lc_tool list" where
  "wrap_tools reg [] = []"
| "wrap_tools reg (tool_name # rest) =
     (case map_of (tools reg) tool_name of
        None \<Rightarrow> wrap_tools reg rest
      | Some d \<Rightarrow>
          (case get_tool_implementation reg tool_name of
             None \<Rightarrow> wrap_tools reg rest
           | Some tool_func \<Rightarrow>
               (let desc = (case td_description d of None \<Rightarrow> [] | Some s \<Rightarrow> s)
                in \<lparr>lc_name = ''tool_wrapper'',
                    lc_description = ''Tool wrapper for MCP tool execution.'',
                    lc_dunder_name = tool_name,
                    lc_dunder_doc =
                      (if desc = [] then ''Execute '' @ tool_name @ '' tool'' else desc),
                    lc_func = tool_func\<rparr> # wrap_tools reg rest)))"

text \<open>\<open>_create_tools\<close>.\<close>

definition create_tools :: "'w ToolRegistry \<Rightarrow> 'w lc_tool list" where
  "create_tools reg = wrap_tools reg key_tools"

text \<open>
  \<open>tool.invoke(tool_args)\<close> runs \<open>tool_wrapper\<close>. The wrapper declares no parameter
  but \<open>**kwargs\<close>, so the tool has no argument field of its own: \<open>invoke\<close> keeps none of
  the requested arguments and the callable runs without keywords. The answer is the
  \<open>"result"\<close> entry of a returned dictionary (or the value itself), rendered with an
  indent of two.
\<close>

definition tool_invoke ::
  "'w runtime \<Rightarrow> 'w lc_tool \<Rightarrow> kwargs \<Rightarrow> 'w \<Rightarrow> (string + string) \<times> 'w" where
  "tool_invoke rt t tool_args w =
     (case lc_func t [] w of
        (Inl e, w') \<Rightarrow> (Inl e, w')
      | (Inr r, w') \<Rightarrow>
          (Inr (json_dumps rt Indent2
                  (case r of
                     JDict kvs \<Rightarrow> (case map_of kvs ''result'' of None \<Rightarrow> JDict [] | Some v \<Rightarrow> v)
                   | _ \<Rightarrow> r)), w'))"

text \<open>\<open>str(n)\<close> for a length.\<close>

definition digit_char :: "nat \<Rightarrow> char" where
  "digit_char d = ''0123456789'' ! d"

fun string_of_nat :: "nat \<Rightarrow> string" where
  "string_of_nat n =
     (if n < 10 then [digit_char n] else string_of_nat (n div 10) @ [digit_char (n mod 10)])"

declare string_of_nat.simps [simp del]

text \<open>\<open>_agent_node\<close>: one call of the reasoning function; its answer is appended.\<close>

definition agent_node :: "llm \<Rightarrow> AgentState \<Rightarrow> string + AgentState" where
  "agent_node reason st =
     (case reason (messages st) of
        Inl e \<Rightarrow> Inl e
      | Inr response \<Rightarrow> Inr (st\<lparr>messages := messages st @ [response]\<rparr>))"

text \<open>
  The body of the loop over \<open>last_message.tool_calls\<close> in \<open>_tools_node\<close>, for one call:
  the first wrapped tool of that name is invoked. A result is recorded and answered with a
  \<open>ToolMessage\<close>; an exception is recorded.
\<close>

definition run_tool_call ::
  "'w runtime \<Rightarrow> 'w lc_tool list \<Rightarrow> tool_call \<Rightarrow>
   message list \<times> tool_result list \<times> 'w \<Rightarrow> message list \<times> tool_result list \<times> 'w" where
  "run_tool_call rt tls tc acc =
     (case acc of (msgs, results, w) \<Rightarrow>
        (case find (\<lambda>t. lc_name t = tc_name tc) tls of
           None \<Rightarrow> (msgs, results, w)
         | Some t \<Rightarrow>
             (case tool_invoke rt t (tc_args tc) w of
                (Inr r, w') \<Rightarrow>
                  (let results' = results @ [ToolResult (tc_name tc) (Some r) None True];
                       fallback = ''call_'' @ tc_name tc @ ''_'' @ string_of_nat (length results');
                       tool_call_id =
                         (case tc_id tc of
                            None \<Rightarrow> fallback
                          | Some i \<Rightarrow> if i = [] then fallback else i)
                   in (msgs @ [ToolMessage r tool_call_id], results', w'))
              | (Inl e, w') \<Rightarrow>
                  (msgs, results @ [ToolResult (tc_name tc) None (Some e) False], w'))))"

fun run_tool_calls ::
  "'w runtime \<Rightarrow> 'w lc_tool list \<Rightarrow> tool_call list \<Rightarrow>
   message list \<times> tool_result list \<times> 'w \<Rightarrow> message list \<times> tool_result list \<times> 'w" where
  "run_tool_calls rt tls [] acc = acc"
| "run_tool_calls rt tls (tc # tcs) acc = run_tool_calls rt tls tcs (run_tool_call rt tls tc acc)"

text \<open>\<open>_tools_node\<close>; \<open>messages[-1]\<close> raises on an empty conversation.\<close>

definition tools_node ::
  "'w runtime \<Rightarrow> 'w lc_tool list \<Rightarrow> AgentState \<Rightarrow> 'w \<Rightarrow> string + (AgentState \<times> 'w)" where
  "tools_node rt tls st w =
     (if messages st = [] then Inl ''list index out of range''
      else (case last (messages st) of
              AIMessage c tool_calls fc \<Rightarrow>
                (case run_tool_calls rt tls tool_calls (messages st, tool_results st, w) of
                   (msgs, results, w') \<Rightarrow>
                     Inr (st\<lparr>messages := msgs, tool_results := results\<rparr>, w'))
            | _ \<Rightarrow> Inr (st, w)))"

text \<open>\<open>_should_continue\<close>: \<open>True\<close> stands for \<open>"continue"\<close>, \<open>False\<close> for \<open>"end"\<close>.\<close>

definition should_continue :: "AgentState \<Rightarrow> bool" where
  "should_continue st =
     (if messages st = [] then False
      else (case last (messages st) of
              AIMessage c tool_calls fc \<Rightarrow> tool_calls \<noteq> [] \<or> fc
            | _ \<Rightarrow> False))"

text \<open>
  The compiled graph of \<open>_create_graph\<close>: entry at \<open>agent\<close>, from \<open>agent\<close> to \<open>tools\<close> on
  \<open>"continue"\<close> and to the end on \<open>"end"\<close>, from \<open>tools\<close> back to \<open>agent\<close>. An exception of
  a node leaves the graph. The first argument is the number of node executions that the
  executor still allows: with none left and the end not reached, the executor raises.
\<close>

datatype node = AgentNode | ToolsNode

fun run_nodes ::
  "nat \<Rightarrow> 'w runtime \<Rightarrow> llm \<Rightarrow> 'w lc_tool list \<Rightarrow> node \<Rightarrow> AgentState \<Rightarrow> 'w \<Rightarrow>
   (string + AgentState) \<times> 'w" where
  "run_nodes 0 rt reason tls nd st w = (Inl (recursion_error rt), w)"
| "run_nodes (Suc n) rt reason tls AgentNode st w =
     (case agent_node reason st of
        Inl e \<Rightarrow> (Inl e, w)
      | Inr st1 \<Rightarrow>
          if should_continue st1 then run_nodes n rt reason tls ToolsNode st1 w
          else (Inr st1, w))"
| "run_nodes (Suc n) rt reason tls ToolsNode st w =
     (case tools_node rt tls st w of
        Inl e \<Rightarrow> (Inl e, w)
      | Inr (st2, w2) \<Rightarrow> run_nodes n rt reason tls AgentNode st2 w2)"

text \<open>\<open>graph.ainvoke(initial_state)\<close>, with no configuration: the default limit applies.\<close>

definition run_graph ::
  "'w runtime \<Rightarrow> llm \<Rightarrow> 'w lc_tool list \<Rightarrow> AgentState \<Rightarrow> 'w \<Rightarrow> (string + AgentState) \<times> 'w" where
  "run_graph rt reason tls st w = run_nodes (recursion_limit rt) rt reason tls AgentNode st w"

text \<open>The fields of \<open>XcodeLangGraphAgent\<close> that the loop and the status report read.\<close>

record 'w agent =
  agent_model :: string
  agent_llm :: llm
  agent_tools :: "'w lc_tool list"

definition initial_state :: "json \<Rightarrow> AgentState" where
  "initial_state prompt =
     \<lparr>messages = [HumanMessage prompt], tool_results = [], current_task = prompt\<rparr>"

text \<open>\<open>run_sync\<close>.\<close>

definition run_sync ::
  "'w runtime \<Rightarrow> 'w agent \<Rightarrow> json \<Rightarrow> 'w \<Rightarrow> (string + AgentState) \<times> 'w" where
  "run_sync rt ag prompt w =
     run_graph rt (agent_llm ag) (agent_tools ag) (initial_state prompt) w"

section \<open>Orchestration tools of the dispatcher (\<open>_handle_langgraph_tool\<close>)\<close>

text \<open>Truthiness of a JSON value, as \<open>if not prompt\<close> tests it.\<close>

fun truthy :: "json \<Rightarrow> bool" where
  "truthy JNull = False"
| "truthy (JBool b) = b"
| "truthy (JNum n) = (n \<noteq> 0)"
| "truthy (JStr s) = (s \<noteq> [])"
| "truthy (JList xs) = (xs \<noteq> [])"
| "truthy (JDict kvs) = (kvs \<noteq> [])"

definition truthy_opt :: "json option \<Rightarrow> bool" where
  "truthy_opt x = (case x of None \<Rightarrow> False | Some v \<Rightarrow> truthy v)"

text \<open>
  How the dispatcher comes by an agent: \<open>_get_langgraph_agent(model)\<close> gives the shared
  agent or \<open>None\<close>; \<open>create_langgraph_agent\<close> with the prompt built from a persona gives
  a new agent or raises. \<open>dumps_workflow\<close> is \<open>json.dumps\<close> on the answer of
  \<open>langgraph_workflow\<close>, which holds the final state with its message objects: the text,
  or the exception that \<open>json.dumps\<close> raises.
\<close>

record 'w agents =
  get_langgraph_agent :: "json \<Rightarrow> 'w agent option"
  create_langgraph_agent :: "json \<Rightarrow> json \<Rightarrow> string + 'w agent"
  dumps_workflow :: "json \<Rightarrow> AgentState \<Rightarrow> string + string"

definition default_model :: json where
  "default_model = JStr ''ollama:qwen3-coder:30b''"

definition acquire_agent :: "'w agents \<Rightarrow> json \<Rightarrow> json option \<Rightarrow> string + 'w agent" where
  "acquire_agent ags model persona_config =
     (if truthy_opt persona_config
      then create_langgraph_agent ags model (the persona_config)
      else (case get_langgraph_agent ags model of
              None \<Rightarrow> Inl ''LangGraph agent could not be created''
            | Some ag \<Rightarrow> Inr ag))"

fun message_content :: "message \<Rightarrow> json" where
  "message_content (HumanMessage c) = c"
| "message_content (AIMessage c tcs fc) = c"
| "message_content (ToolMessage c i) = JStr c"

fun tool_result_json :: "tool_result \<Rightarrow> json" where
  "tool_result_json (ToolResult n r e s) =
     JDict ([(''tool'', JStr n), (''result'', (case r of None \<Rightarrow> JNull | Some x \<Rightarrow> JStr x))]
            @ (case e of None \<Rightarrow> [] | Some m \<Rightarrow> [(''error'', JStr m)])
            @ [(''success'', JBool s)])"

text \<open>The answer of \<open>langgraph_agent\<close> after a run that returned its final state.\<close>

definition agent_answer :: "'w runtime \<Rightarrow> AgentState \<Rightarrow> result" where
  "agent_answer rt st =
     ContentResult (json_dumps rt Compact (JDict
       [(''response'', (if messages st = [] then JStr [] else message_content (last (messages st)))),
        (''tool_results'', JList (map tool_result_json (tool_results st))),
        (''messages_count'', JNum (int (length (messages st)))),
        (''steps_executed'', JNum (int (length (tool_results st))))]))"

definition newline :: char where
  "newline = CHR 0x0A"

definition workflow_prompt :: "'w runtime \<Rightarrow> json \<Rightarrow> json \<Rightarrow> string" where
  "workflow_prompt rt workflow ctx =
     ''Execute this Xcode development workflow:'' @ [newline] @ str_json rt workflow
       @ [newline, newline] @ ''Context: '' @ json_dumps rt Compact ctx @ [newline, newline]
       @ ''Break this down into steps and execute them using the available tools. Provide clear progress updates.''"

definition status_answer :: "'w runtime \<Rightarrow> 'w UnifiedMCPServer \<Rightarrow> 'w agent option \<Rightarrow> result" where
  "status_answer rt srv ag =
     ContentResult (json_dumps rt Compact (JDict
       [(''agent_type'', JStr ''LangGraph''),
        (''model'', JStr (case ag of None \<Rightarrow> ''not_initialized'' | Some a \<Rightarrow> agent_model a)),
        (''available_tools'', JNum (int (length (tools (registry srv))))),
        (''langgraph_tools'',
           JNum (case ag of None \<Rightarrow> 0 | Some a \<Rightarrow> int (length (agent_tools a)))),
        (''graph_compiled'', JBool (ag \<noteq> None)),
        (''capabilities'',
           JList [JStr ''Multi-step task execution'', JStr ''State management'',
                  JStr ''Tool orchestration'', JStr ''Reasoning and planning'']),
        (''langgraph_enabled'', JBool (langgraph_enabled srv))]))"

text \<open>The \<open>except Exception\<close> clause: whatever was raised inside is answered with \<open>-32000\<close>.\<close>

definition tool_execution_failed :: "json option \<Rightarrow> string \<Rightarrow> response" where
  "tool_execution_failed request_id e =
     send_error request_id (- 32000) (''Tool execution failed: '' @ e)"

definition handle_langgraph_tool ::
  "'w runtime \<Rightarrow> 'w agents \<Rightarrow> 'w UnifiedMCPServer \<Rightarrow> string \<Rightarrow> kwargs \<Rightarrow> json option \<Rightarrow>
   'w \<Rightarrow> (response \<times> 'w) option" where
  "handle_langgraph_tool rt ags srv tool_name arguments request_id w =
     (if tool_name = ''langgraph_agent'' then
        (if \<not> truthy_opt (map_of arguments ''prompt'')
         then Some (tool_execution_failed request_id ''prompt is required'', w)
         else
           (case acquire_agent ags
                   (case map_of arguments ''model'' of None \<Rightarrow> default_model | Some m \<Rightarrow> m)
                   (map_of arguments ''persona'') of
              Inl e \<Rightarrow> Some (tool_execution_failed request_id e, w)
            | Inr ag \<Rightarrow>
                (case run_sync rt ag (the (map_of arguments ''prompt'')) w of
                   (Inl e, w') \<Rightarrow> Some (tool_execution_failed request_id e, w')
                 | (Inr st, w') \<Rightarrow> Some (send_result request_id (agent_answer rt st), w'))))
      else if tool_name = ''langgraph_workflow'' then
        (if \<not> truthy_opt (map_of arguments ''workflow'')
         then Some (tool_execution_failed request_id ''workflow is required'', w)
         else
           (case acquire_agent ags default_model (map_of arguments ''persona'') of
              Inl e \<Rightarrow> Some (tool_execution_failed request_id e, w)
            | Inr ag \<Rightarrow>
                (case run_sync rt ag
                        (JStr (workflow_prompt rt (the (map_of arguments ''workflow''))
                           (case map_of arguments ''context'' of None \<Rightarrow> JDict [] | Some c \<Rightarrow> c)))
                        w of
                   (Inl e, w') \<Rightarrow> Some (tool_execution_failed request_id e, w')
                 | (Inr st, w') \<Rightarrow>
                     (case dumps_workflow ags (the (map_of arguments ''workflow'')) st of
                        Inl e \<Rightarrow> Some (tool_execution_failed request_id e, w')
                      | Inr text \<Rightarrow> Some (send_result request_id (ContentResult text), w')))))
      else if tool_name = ''langgraph_status'' then
        Some (send_result request_id
                (status_answer rt srv (get_langgraph_agent ags default_model)), w)
      else
        Some (send_error request_id (- 32601) (''Unknown LangGraph tool: '' @ tool_name), w))"

section \<open>Authentication of the network transports (\<open>src/mcp_http_server.py\<close>)\<close>

text \<open>
  \<open>REQUIRE_AUTH\<close> and \<open>API_KEY\<close> are read from the environment when the module is loaded.
  \<open>verify_api_key\<close> guards the HTTP endpoint: it returns, or raises an \<open>HTTPException\<close>
  with a status and a detail. The header is \<open>None\<close> when the request carries none.
\<close>

datatype http_auth = Allowed | Rejected nat string

definition verify_api_key :: "bool \<Rightarrow> string \<Rightarrow> string option \<Rightarrow> http_auth" where
  "verify_api_key REQUIRE_AUTH API_KEY x_api_key =
     (if \<not> REQUIRE_AUTH then Allowed
      else if API_KEY = [] then Allowed
      else if x_api_key = None \<or> x_api_key = Some [] then Rejected 401 ''API key required''
      else if x_api_key \<noteq> Some API_KEY then Rejected 403 ''Invalid API key''
      else Allowed)"

text \<open>
  The check at the head of \<open>websocket_endpoint\<close>: the socket is closed with a code and a
  reason, or the endpoint goes on to read messages. The key is the \<open>api_key\<close> query
  parameter, \<open>None\<close> when the URL has none.
\<close>

datatype ws_auth = Accepted | Closed nat string

definition websocket_endpoint_auth :: "bool \<Rightarrow> string \<Rightarrow> string option \<Rightarrow> ws_auth" where
  "websocket_endpoint_auth REQUIRE_AUTH API_KEY api_key =
     (if REQUIRE_AUTH \<and> API_KEY \<noteq> []
      then (if api_key \<noteq> Some API_KEY then Closed 1008 ''Invalid API key'' else Accepted)
      else Accepted)"

section \<open>A small concrete installation, for evaluating the model\<close>

text \<open>
  A stand-in for \<open>json.dumps\<close> that is good enough to tell argument objects apart: scalars
  are written out, nested values are abbreviated, and \<open>SortKeys\<close> orders the keys of the
  object.
\<close>

fun str_le :: "string \<Rightarrow> string \<Rightarrow> bool" where
  "str_le [] ys = True"
| "str_le (x # xs) [] = False"
| "str_le (x # xs) (y # ys) = (if x = y then str_le xs ys else (of_char x :: nat) < of_char y)"

fun insert_item :: "string \<times> json \<Rightarrow> kwargs \<Rightarrow> kwargs" where
  "insert_item kv [] = [kv]"
| "insert_item kv (x # xs) = (if str_le (fst kv) (fst x) then kv # x # xs else x # insert_item kv xs)"

fun sort_items :: "kwargs \<Rightarrow> kwargs" where
  "sort_items [] = []"
| "sort_items (kv # kvs) = insert_item kv (sort_items kvs)"

fun example_scalar :: "json \<Rightarrow> string" where
  "example_scalar JNull = ''null''"
| "example_scalar (JBool b) = (if b then ''true'' else ''false'')"
| "example_scalar (JNum n) = (if n < 0 then ''-'' else []) @ string_of_nat (nat \<bar>n\<bar>)"
| "example_scalar (JStr s) = [CHR 0x22] @ s @ [CHR 0x22]"
| "example_scalar (JList xs) = ''[..]''"
| "example_scalar (JDict kvs) = ''{..}''"

definition example_dumps :: "dumps_style \<Rightarrow> json \<Rightarrow> string" where
  "example_dumps style j =
     (case j of
        JDict kvs \<Rightarrow>
          ''{'' @ concat (map (\<lambda>(k, v). k @ '':'' @ example_scalar v @ '','')
                         (if style = SortKeys then sort_items kvs else kvs)) @ ''}''
      | _ \<Rightarrow> example_scalar j)"

text \<open>
  The world is a clock in seconds; every tool that runs takes one second. The executor
  allows 25 node executions.
\<close>

definition example_runtime :: "nat runtime" where
  "example_runtime =
     \<lparr>json_dumps = example_dumps, time_time = real, str_json = example_scalar,
      recursion_limit = 25,
      recursion_error = ''Recursion limit of 25 reached without hitting a stop condition.''\<rparr>"

definition check_xcode_cli :: "nat impl" where
  "check_xcode_cli kw w = (Inr (JDict [(''installed'', JBool True)]), Suc w)"

definition build_project :: "nat impl" where
  "build_project kw w = (Inl ''xcodebuild: error: no project found'', Suc w)"

text \<open>The search for projects times out when it is started at second 1.\<close>

definition list_projects :: "nat impl" where
  "list_projects kw w =
     (if w = 1 then Inl ''mdfind: timed out'' else Inr (JDict [(''projects'', JList [])]),
      Suc w)"

definition example_def :: "string \<Rightarrow> tool_def" where
  "example_def n = \<lparr>td_name = Some n, td_description = None, td_parameters = None\<rparr>"

definition example_catalog :: "tool_def list" where
  "example_catalog =
     [example_def ''check_xcode_cli'', example_def ''build_project'',
      example_def ''list_projects'', example_def ''set_version'']"

definition example_modules :: "nat impl pymodule list" where
  "example_modules =
     [[(''list_projects'', Callable list_projects), (''subprocess'', NotCallable)],
      [(''_run'', Callable build_project), (''build_project'', Callable build_project)],
      [(''check_xcode_cli'', Callable check_xcode_cli)]]"

definition example_registry :: "nat ToolRegistry" where
  "example_registry = new_registry example_catalog example_modules"

definition example_server :: "nat UnifiedMCPServer" where
  "example_server = (new_server example_registry False)\<lparr>initialized := True\<rparr>"

text \<open>An orchestration handler for a dispatcher without the orchestration layer.\<close>

definition no_langgraph :: "nat langgraph_handler" where
  "no_langgraph srv tool_name arguments request_id w = None"

text \<open>Arguments for a cached call, and the server after that call at time 10.\<close>

definition example_arguments :: kwargs where
  "example_arguments = [(''scheme'', JStr ''App''), (''configuration'', JStr ''Debug'')]"

definition example_cached_server :: "nat UnifiedMCPServer" where
  "example_cached_server =
     example_server\<lparr>response_cache :=
       [response_cache_key example_runtime ''check_xcode_cli'' example_arguments \<mapsto>
          (11, ContentResult (example_dumps Compact (JDict [(''installed'', JBool True)])))]\<rparr>"

text \<open>
  Reasoning functions for the examples: one that asks for a tool on every turn, one that
  asks once and then fails, and one that asks for three tools and then answers. The calls
  ask for \<open>tool_wrapper\<close>, the name that the wrapped tools carry. The agent wraps the tools
  of the example registry.
\<close>

definition ask :: "string \<Rightarrow> string \<Rightarrow> tool_call" where
  "ask n i = \<lparr>tc_name = n, tc_args = [], tc_id = Some i\<rparr>"

definition always_asks :: llm where
  "always_asks msgs = Inr (AIMessage (JStr []) [ask ''tool_wrapper'' ''call_1''] False)"

definition fails_after_one :: llm where
  "fails_after_one msgs =
     (if length msgs < 2 then Inr (AIMessage (JStr []) [ask ''tool_wrapper'' ''call_1''] False)
      else Inl ''connection refused'')"

definition example_agent :: "llm \<Rightarrow> nat agent" where
  "example_agent reason =
     \<lparr>agent_model = ''ollama:qwen3-coder:30b'', agent_llm = reason,
      agent_tools = create_tools example_registry\<rparr>"

definition example_agents :: "llm \<Rightarrow> nat agents" where
  "example_agents reason =
     \<lparr>get_langgraph_agent = (\<lambda>model. Some (example_agent reason)),
      create_langgraph_agent = (\<lambda>model persona. Inr (example_agent reason)),
      dumps_workflow = (\<lambda>workflow st. Inl ''Object of type HumanMessage is not JSON serializable'')\<rparr>"

definition plans_then_answers :: llm where
  "plans_then_answers msgs =
     (if length msgs < 2
      then Inr (AIMessage (JStr [])
                  [ask ''tool_wrapper'' ''a'', ask ''tool_wrapper'' ''b'',
                   ask ''tool_wrapper'' ''c''] False)
      else Inr (AIMessage (JStr ''done'') [] False))"

definition example_act_state :: AgentState where
  "example_act_state =
     \<lparr>messages = [HumanMessage (JStr ''set up''),
                  AIMessage (JStr [])
                    [ask ''tool_wrapper'' ''a'', ask ''tool_wrapper'' ''b'',
                     ask ''tool_wrapper'' ''c''] False],
      tool_results = [], current_task = JStr ''set up''\<rparr>"

definition example_act_results :: "tool_result list" where
  "example_act_results =
     [ToolResult ''tool_wrapper'' (Some ''{}'') None True,
      ToolResult ''tool_wrapper'' None (Some ''mdfind: timed out'') False,
      ToolResult ''tool_wrapper'' (Some ''{}'') None True]"

definition example_asked_state :: AgentState where
  "example_asked_state =
     \<lparr>messages = [HumanMessage (JStr ''check my setup''),
                  AIMessage (JStr []) [ask ''tool_wrapper'' ''call_1''] False],
      tool_results = [], current_task = JStr ''check my setup''\<rparr>"

definition example_partial_state :: AgentState where
  "example_partial_state =
     \<lparr>messages = [HumanMessage (JStr ''check my setup''),
                  AIMessage (JStr []) [ask ''tool_wrapper'' ''call_1''] False,
                  ToolMessage ''{}'' ''call_1''],
      tool_results = [ToolResult ''tool_wrapper'' (Some ''{}'') None True],
      current_task = JStr ''check my setup''\<rparr>"

section \<open>Notions used in the statements\<close>

text \<open>
  The arguments hold a key that collides with a positional parameter of \<open>execute_tool\<close>.
\<close>

definition reserved_key :: "kwargs \<Rightarrow> bool" where
  "reserved_key arguments =
     (''self'' \<in> set (map fst arguments) \<or> ''tool_name'' \<in> set (map fst arguments))"

text \<open>
  The response cache holds an entry under the key that is younger than the TTL at the time
  of the world: the entry a \<open>tools/call\<close> would answer with.
\<close>

definition live_response ::
  "'w runtime \<Rightarrow> 'w UnifiedMCPServer \<Rightarrow> string \<Rightarrow> 'w \<Rightarrow> result option" where
  "live_response rt srv cache_key w =
     (case response_cache srv cache_key of
        Some (cached_time, cached_result) \<Rightarrow>
          if time_time rt w - cached_time < cache_ttl srv then Some cached_result else None
      | None \<Rightarrow> None)"

text \<open>A \<open>tools/call\<close> request for a tool, with arguments and an id.\<close>

definition tools_call :: "string \<Rightarrow> kwargs \<Rightarrow> json option \<Rightarrow> request" where
  "tools_call n a i =
     \<lparr>req_method = Some ''tools/call'',
      req_params = \<lparr>cp_name = Some n, cp_arguments = a\<rparr>, req_id = i\<rparr>"

text \<open>The reasoning function answers every conversation with a request for a tool.\<close>

definition always_requests :: "llm \<Rightarrow> bool" where
  "always_requests reason = (\<forall>ms. \<exists>c tcs fc. reason ms = Inr (AIMessage c tcs fc) \<and> tcs \<noteq> [])"

section \<open>The registry binds the last matching module\<close>

lemma load_module_attrs_other:
  "n \<notin> set ns \<Longrightarrow> load_module_attrs ts m ns impls n = impls n"
  by (induction ns arbitrary: impls) (auto split: option.splits attr.splits)

lemma load_module_attrs_no_binding:
  "module_binding ts m n = None \<Longrightarrow> set ns \<subseteq> set (dir_names m) \<Longrightarrow>
   load_module_attrs ts m ns impls n = impls n"
proof (induction ns arbitrary: impls)
  case Nil
  then show ?case by simp
next
  case (Cons a ns)
  then show ?case
    by (cases "a = n") (auto simp: module_binding_def split: option.splits attr.splits if_splits)
qed

lemma load_module_attrs_binding:
  "module_binding ts m n = Some f \<Longrightarrow> n \<in> set ns \<Longrightarrow>
   load_module_attrs ts m ns impls n = Some f"
proof (induction ns arbitrary: impls)
  case Nil
  then show ?case by simp
next
  case (Cons a ns)
  show ?case
  proof (cases "n \<in> set ns")
    case True
    with Cons show ?thesis
      by (auto split: option.splits attr.splits)
  next
    case False
    with Cons.prems have an: "a = n" by simp
    from Cons.prems(1) have g: "getattr m n = Some (Callable f)"
      and ok: "\<not> startswith n ''_''" "map_of ts n \<noteq> None"
      by (auto simp: module_binding_def split: if_splits option.splits attr.splits)
    from False an g ok show ?thesis
      by (simp add: load_module_attrs_other)
  qed
qed

lemma load_module_attrs_dir:
  "load_module_attrs ts m (dir_names m) impls n =
     (case module_binding ts m n of Some f \<Rightarrow> Some f | None \<Rightarrow> impls n)"
proof (cases "module_binding ts m n")
  case None
  then show ?thesis by (simp add: load_module_attrs_no_binding)
next
  case (Some f)
  then have "n \<in> set (dir_names m)"
    by (auto simp: module_binding_def split: if_splits)
  with Some show ?thesis by (simp add: load_module_attrs_binding)
qed

lemma load_modules_snoc:
  "load_modules ts (ms @ [m]) impls n =
     (case module_binding ts m n of
        Some f \<Rightarrow> Some f
      | None \<Rightarrow> load_modules ts ms impls n)"
  by (induction ms arbitrary: impls)
    (simp_all add: load_module_attrs_dir split: option.splits)

lemma load_modules_append:
  "load_modules ts (ms @ ms') impls = load_modules ts ms' (load_modules ts ms impls)"
  by (induction ms arbitrary: impls) simp_all

lemma load_modules_none_later:
  "\<forall>m \<in> set ms. module_binding ts m n = None \<Longrightarrow> load_modules ts ms impls n = impls n"
  by (induction ms arbitrary: impls) (simp_all add: load_module_attrs_dir)

text \<open>
  Claim C1, as the specification states it: a name exported by several modules stays bound
  to the callable of the earliest module. The loop assigns without looking at what is
  bound already, so with two modules that both export \<open>build_project\<close> the registry ends
  up with the callable of the second.
\<close>

theorem load_implementations_first_match_counterexample:
  "module_binding [(''build_project'', example_def ''build_project'')]
     [(''build_project'', Callable (1::nat))] ''build_project'' = Some 1
   \<and> module_binding [(''build_project'', example_def ''build_project'')]
       [(''build_project'', Callable (2::nat))] ''build_project'' = Some 2
   \<and> load_implementations [(''build_project'', example_def ''build_project'')]
       [[(''build_project'', Callable (1::nat))], [(''build_project'', Callable 2)]]
       ''build_project'' = Some 2"
  by (simp add: module_binding_def load_implementations_def dir_names_def getattr_def
      startswith_def)

text \<open>
  Claim C1, amended: after the registry is built, a catalog name is bound to the callable
  of the last module, in the order of \<open>tool_modules\<close>, that exports a callable of that
  name; modules before it have no say.
\<close>

theorem load_implementations_last_match_wins:
  assumes "module_binding ts m n = Some f"
    and "\<forall>m' \<in> set later. module_binding ts m' n = None"
  shows "load_implementations ts (earlier @ m # later) n = Some f"
proof -
  have "load_implementations ts (earlier @ m # later) n
        = load_modules ts later (load_modules ts (earlier @ [m]) Map.empty) n"
    unfolding load_implementations_def
    using load_modules_append [of ts "earlier @ [m]" later Map.empty] by simp
  also have "\<dots> = load_modules ts (earlier @ [m]) Map.empty n"
    using assms(2) by (rule load_modules_none_later)
  also have "\<dots> = Some f"
    using assms(1) by (simp add: load_modules_snoc)
  finally show ?thesis .
qed

theorem load_implementations_last_match_wins_witness:
  "module_binding [(''run_tests'', example_def ''run_tests'')]
     [(''run_tests'', Callable (7::nat))] ''run_tests'' = Some 7
   \<and> module_binding [(''run_tests'', example_def ''run_tests'')]
       [(''helper'', Callable (9::nat))] ''run_tests'' = None
   \<and> load_implementations [(''run_tests'', example_def ''run_tests'')]
       ([[(''run_tests'', Callable (3::nat))]] @ [(''run_tests'', Callable 7)]
          # [[(''helper'', Callable 9)]]) ''run_tests'' = Some 7"
proof -
  have a: "module_binding [(''run_tests'', example_def ''run_tests'')]
             [(''run_tests'', Callable (7::nat))] ''run_tests'' = Some 7"
    by (simp add: module_binding_def dir_names_def getattr_def startswith_def)
  have b: "\<forall>m' \<in> set [[(''helper'', Callable (9::nat))]].
             module_binding [(''run_tests'', example_def ''run_tests'')] m' ''run_tests'' = None"
    by (simp add: module_binding_def dir_names_def getattr_def startswith_def)
  have c: "module_binding [(''run_tests'', example_def ''run_tests'')]
             [(''helper'', Callable (9::nat))] ''run_tests'' = None"
    by (simp add: module_binding_def dir_names_def getattr_def startswith_def)
  show ?thesis
    by (rule conjI [OF a conjI [OF c
          load_implementations_last_match_wins [OF a b, of "[[(''run_tests'', Callable 3)]]"]]])
qed

section \<open>Authentication is enforced only with both the flag and the secret\<close>

text \<open>
  Claim C9: a request is turned away exactly when enforcement is on, a secret is configured
  and the presented key is not that secret, on the HTTP endpoint and on the WebSocket
  endpoint alike. So with enforcement off, or with enforcement on and no secret, every
  request passes whatever key it presents.
\<close>

theorem authentication_gate:
  "(verify_api_key REQUIRE_AUTH API_KEY presented \<noteq> Allowed)
     = (REQUIRE_AUTH \<and> API_KEY \<noteq> [] \<and> presented \<noteq> Some API_KEY)
   \<and> (websocket_endpoint_auth REQUIRE_AUTH API_KEY presented \<noteq> Accepted)
     = (REQUIRE_AUTH \<and> API_KEY \<noteq> [] \<and> presented \<noteq> Some API_KEY)"
  by (auto simp: verify_api_key_def websocket_endpoint_auth_def)

theorem authentication_gate_witness:
  "verify_api_key True [] (Some ''guess'') = Allowed
   \<and> websocket_endpoint_auth True [] None = Accepted
   \<and> verify_api_key False ''s3cret'' (Some ''guess'') = Allowed
   \<and> websocket_endpoint_auth False ''s3cret'' (Some ''guess'') = Accepted
   \<and> verify_api_key True ''s3cret'' (Some ''guess'') \<noteq> Allowed
   \<and> websocket_endpoint_auth True ''s3cret'' None \<noteq> Accepted
   \<and> verify_api_key True ''s3cret'' (Some ''s3cret'') = Allowed"
  using authentication_gate [of True "[]" "Some ''guess''"]
    authentication_gate [of True "[]" None]
    authentication_gate [of False "''s3cret''" "Some ''guess''"]
    authentication_gate [of True "''s3cret''" "Some ''guess''"]
    authentication_gate [of True "''s3cret''" None]
    authentication_gate [of True "''s3cret''" "Some ''s3cret''"]
  by simp

section \<open>The dispatcher on an ordinary tool\<close>

lemma call_execute_tool_plain:
  assumes "\<not> reserved_key arguments"
  shows "call_execute_tool reg n arguments w = Inr (execute_tool reg n arguments w)"
proof -
  from assms have "find (\<lambda>k. k = ''self'' \<or> k = ''tool_name'') (map fst arguments) = None"
    unfolding reserved_key_def find_None_iff by blast
  then show ?thesis by (simp add: call_execute_tool_def)
qed

lemma call_execute_tool_Inr:
  "call_execute_tool reg n arguments w = Inr x \<Longrightarrow> x = execute_tool reg n arguments w"
  by (auto simp: call_execute_tool_def split: option.splits)

lemma execute_tool_unbound:
  "implementations reg n = None \<Longrightarrow> execute_tool reg n kw w = (Failure (not_implemented n), w)"
  by (simp add: execute_tool_def get_tool_implementation_def)

lemma execute_tool_bound:
  "implementations reg n = Some impl \<Longrightarrow>
   execute_tool reg n kw w =
     (case impl kw w of (Inr v, w') \<Rightarrow> (Success v, w') | (Inl e, w') \<Rightarrow> (Failure e, w'))"
  by (simp add: execute_tool_def get_tool_implementation_def)

lemma execute_tool_Success:
  "execute_tool reg n kw w = (Success v, w') \<Longrightarrow>
   \<exists>impl. implementations reg n = Some impl \<and> impl kw w = (Inr v, w')"
  by (auto simp: execute_tool_def get_tool_implementation_def
      split: option.splits prod.splits sum.splits)

lemma handle_tools_call_ordinary:
  "n \<noteq> [] \<Longrightarrow> \<not> startswith n ''langgraph_'' \<Longrightarrow>
   handle_tools_call rt lg \<lparr>cp_name = Some n, cp_arguments = a\<rparr> i srv w =
     (case live_response rt srv (response_cache_key rt n a) w of
        Some r \<Rightarrow> Some (Inr (Some (send_result i r)), srv, w)
      | None \<Rightarrow> execute_and_store rt n a i srv w)"
  by (simp add: handle_tools_call_def live_response_def split: option.splits)

lemma execute_and_store_failure:
  "call_execute_tool (registry srv) n a w = Inr (Failure msg, w') \<Longrightarrow>
   execute_and_store rt n a i srv w = Some (Inr (Some (send_error i (- 32000) msg)), srv, w')"
  by (simp add: execute_and_store_def)

lemma execute_and_store_result:
  assumes "execute_and_store rt n a i srv w = Some (Inr (Some (Response i' (Inr r))), srv', w')"
  shows "\<exists>v. call_execute_tool (registry srv) n a w = Inr (Success v, w')
           \<and> r = ContentResult (json_dumps rt Compact v)
           \<and> srv' = srv\<lparr>response_cache :=
                          (response_cache srv)(response_cache_key rt n a \<mapsto> (time_time rt w', r))\<rparr>"
  using assms
  by (auto simp: execute_and_store_def Let_def send_error_def send_result_def
      split: sum.splits outcome.splits prod.splits)

lemma example_implementations:
  "implementations example_registry ''check_xcode_cli'' = Some check_xcode_cli"
  "implementations example_registry ''build_project'' = Some build_project"
  "implementations example_registry ''list_projects'' = Some list_projects"
  "implementations example_registry ''set_version'' = None"
  by (simp_all add: example_registry_def new_registry_def example_catalog_def
      example_modules_def example_def_def load_implementations_def dir_names_def getattr_def
      startswith_def)

lemma example_server_fields:
  "initialized example_server"
  "registry example_server = example_registry"
  "\<not> langgraph_enabled example_server"
  "response_cache example_server = Map.empty"
  "cache_ttl example_server = 300"
  by (simp_all add: example_server_def new_server_def)

text \<open>
  Claim C4: when the execution of a \<open>tools/call\<close> ends in a failure outcome, the answer is
  the error \<open>-32000\<close> with the message of the failure, and the server, its response cache
  included, is what it was before the call.
\<close>

theorem failure_not_cached:
  assumes "initialized srv"
    and "n \<noteq> []" and "\<not> startswith n ''langgraph_''"
    and "live_response rt srv (response_cache_key rt n a) w = None"
    and "call_execute_tool (registry srv) n a w = Inr (Failure msg, w')"
  shows "handle_request rt lg (tools_call n a i) srv w
         = Some (Inr (Some (Response i (Inl (RpcError (- 32000) msg)))), srv, w')"
  using assms
  by (simp add: handle_request_def tools_call_def handle_tools_call_ordinary
      execute_and_store_failure send_error_def)

theorem failure_not_cached_witness:
  "handle_request example_runtime no_langgraph
     (tools_call ''build_project'' [(''scheme'', JStr ''App'')] (Some (JNum 7)))
     example_server 10
   = Some (Inr (Some (Response (Some (JNum 7))
        (Inl (RpcError (- 32000) ''xcodebuild: error: no project found'')))),
        example_server, 11)"
proof -
  have c: "\<not> startswith ''build_project'' ''langgraph_''" by (simp add: startswith_def)
  have d: "live_response example_runtime example_server
             (response_cache_key example_runtime ''build_project'' [(''scheme'', JStr ''App'')])
             10 = None"
    by (simp add: live_response_def example_server_fields)
  have e: "call_execute_tool (registry example_server) ''build_project''
             [(''scheme'', JStr ''App'')] 10
           = Inr (Failure ''xcodebuild: error: no project found'', 11)"
    by (simp add: call_execute_tool_def execute_tool_def get_tool_implementation_def
        example_server_fields example_implementations build_project_def)
  show ?thesis
    using failure_not_cached [OF example_server_fields(1) _ c d e] by simp
qed

text \<open>
  Claim C5, as the specification states it: a \<open>tools/call\<close> that names any tool without a
  bound implementation is answered with \<open>-32000\<close>, and \<open>execute_tool\<close> never raises for
  such a name. A name with the orchestration prefix is no catalog name and has no
  implementation, and the dispatcher answers it with \<open>-32001\<close> when the orchestration
  layer is not installed; and a call of \<open>execute_tool\<close> for it with an argument named
  \<open>tool_name\<close> raises \<open>TypeError\<close>.
\<close>

theorem unbound_tool_call_counterexample:
  "implementations (registry example_server) ''langgraph_deploy'' = None
   \<and> map_of (tools (registry example_server)) ''langgraph_deploy'' = None
   \<and> handle_request example_runtime no_langgraph
       (tools_call ''langgraph_deploy'' [] (Some (JNum 3))) example_server 0
     = Some (Inr (Some (Response (Some (JNum 3)) (Inl (RpcError (- 32001)
         ''LangGraph not available. Install with: pip install langgraph langchain'')))),
         example_server, 0)
   \<and> call_execute_tool (registry example_server) ''langgraph_deploy''
       [(''tool_name'', JStr ''build_project'')] 0
     = Inl (''ToolRegistry.execute_tool() got multiple values for argument ''
            @ [apostrophe] @ ''tool_name'' @ [apostrophe])"
  by (simp add: example_server_def new_server_def example_registry_def new_registry_def
      example_catalog_def example_modules_def example_def_def load_implementations_def
      dir_names_def getattr_def startswith_def handle_request_def handle_tools_call_def
      send_error_def tools_call_def call_execute_tool_def multiple_values_def)

text \<open>
  Claim C5, amended: for a name without a bound implementation, a call of \<open>execute_tool\<close>
  with arguments that hold no key \<open>self\<close> or \<open>tool_name\<close> returns the failure
  \<open>Tool '<name>' not implemented\<close>, raises nothing and leaves the world alone; and in an
  initialized session a \<open>tools/call\<close> with such a name that is not empty and does not
  start with \<open>langgraph_\<close>, with such arguments and no live cache entry under its key, is
  answered with \<open>-32000\<close> and that message.
\<close>

theorem unbound_tool_fails:
  "implementations reg n = None \<and> \<not> reserved_key a \<longrightarrow>
     call_execute_tool reg n a w
       = Inr (Failure (''Tool '' @ [apostrophe] @ n @ [apostrophe] @ '' not implemented''), w)
     \<and> (initialized srv \<and> registry srv = reg \<and> n \<noteq> [] \<and> \<not> startswith n ''langgraph_''
          \<and> live_response rt srv (response_cache_key rt n a) w = None
        \<longrightarrow> handle_request rt lg (tools_call n a i) srv w
            = Some (Inr (Some (Response i (Inl (RpcError (- 32000)
                (''Tool '' @ [apostrophe] @ n @ [apostrophe] @ '' not implemented''))))),
                srv, w))"
  by (auto simp: handle_request_def tools_call_def handle_tools_call_ordinary
      execute_and_store_def call_execute_tool_plain execute_tool_unbound send_error_def
      not_implemented_def)

theorem unbound_tool_fails_witness:
  "implementations example_registry ''set_version'' = None
   \<and> \<not> reserved_key [(''version'', JStr ''2.0'')]
   \<and> call_execute_tool example_registry ''set_version'' [(''version'', JStr ''2.0'')] 5
       = Inr (Failure (''Tool '' @ [apostrophe] @ ''set_version'' @ [apostrophe]
                     @ '' not implemented''), 5)
   \<and> handle_request example_runtime no_langgraph
       (tools_call ''set_version'' [(''version'', JStr ''2.0'')] (Some (JStr ''a'')))
       example_server 5
     = Some (Inr (Some (Response (Some (JStr ''a'')) (Inl (RpcError (- 32000)
         (''Tool '' @ [apostrophe] @ ''set_version'' @ [apostrophe]
            @ '' not implemented''))))), example_server, 5)"
proof -
  have a: "\<not> startswith ''set_version'' ''langgraph_''" by (simp add: startswith_def)
  have b: "\<not> reserved_key [(''version'', JStr ''2.0'')]" by (simp add: reserved_key_def)
  have c: "live_response example_runtime example_server
             (response_cache_key example_runtime ''set_version'' [(''version'', JStr ''2.0'')])
             5 = None"
    by (simp add: live_response_def example_server_fields)
  show ?thesis
    using unbound_tool_fails [of example_registry "''set_version''"
        "[(''version'', JStr ''2.0'')]" 5 example_server
        example_runtime no_langgraph "Some (JStr ''a'')"]
      a b c example_implementations(4) example_server_fields(1,2)
    by simp
qed

section \<open>The session lifecycle\<close>

lemma handle_request_uninitialized:
  "\<not> initialized srv \<Longrightarrow> req_method req \<noteq> Some ''initialize'' \<Longrightarrow>
   \<exists>out. handle_request rt lg req srv w = Some (Inr out, srv, w)"
  by (auto simp: handle_request_def Let_def)

lemma render_all_initialized:
  "render_all rt ds srv w = (ss, srv') \<Longrightarrow> initialized srv' = initialized srv"
proof (induction ds arbitrary: srv ss srv')
  case Nil
  then show ?case by simp
next
  case (Cons d ds)
  obtain s1 srv1 where g: "get_tool_schema_enhanced rt d srv w = (s1, srv1)"
    by (cases "get_tool_schema_enhanced rt d srv w")
  then have i1: "initialized srv1 = initialized srv"
    by (auto simp: get_tool_schema_enhanced_def Let_def split: option.splits if_splits)
  obtain ss2 srv2 where r: "render_all rt ds srv1 w = (ss2, srv2)"
    by (cases "render_all rt ds srv1 w")
  from Cons.prems g r have "srv' = srv2" by simp
  with Cons.IH [OF r] i1 show ?case by simp
qed

lemma execute_and_store_initialized:
  "execute_and_store rt n a i srv w = Some (out, srv', w') \<Longrightarrow> initialized srv' = initialized srv"
  by (auto simp: execute_and_store_def Let_def split: sum.splits outcome.splits prod.splits)

lemma handle_tools_call_initialized:
  "handle_tools_call rt lg params i srv w = Some (out, srv', w') \<Longrightarrow>
   initialized srv' = initialized srv"
  by (auto simp: handle_tools_call_def split: option.splits if_splits
      dest: execute_and_store_initialized)

lemma handle_request_initialized:
  "initialized srv \<Longrightarrow> handle_request rt lg req srv w = Some (out, srv', w') \<Longrightarrow> initialized srv'"
  by (auto simp: handle_request_def handle_initialize_def handle_tools_list_def Let_def
      split: if_splits prod.splits
      dest: handle_tools_call_initialized render_all_initialized)

lemma run_request_initialized:
  "initialized srv \<Longrightarrow> run_request rt lg req srv w = Some (out, srv', w') \<Longrightarrow> initialized srv'"
  by (auto simp: run_request_def split: option.splits sum.splits prod.splits
      dest: handle_request_initialized)

lemma run_requests_initialized:
  "initialized srv \<Longrightarrow> run_requests rt lg reqs srv w = Some (outs, srv', w') \<Longrightarrow> initialized srv'"
proof (induction reqs arbitrary: srv w outs)
  case Nil
  then show ?case by simp
next
  case (Cons r rs)
  from Cons.prems(2) obtain out srv1 w1 outs1 where
    a: "run_request rt lg r srv w = Some (out, srv1, w1)"
    and b: "run_requests rt lg rs srv1 w1 = Some (outs1, srv', w')"
    by (auto split: option.splits prod.splits)
  from run_request_initialized [OF Cons.prems(1) a] have "initialized srv1" .
  from Cons.IH [OF this b] show ?case .
qed

text \<open>
  Claim C6: before \<open>initialize\<close> a \<open>tools/list\<close> or \<open>tools/call\<close> is answered with
  \<open>-32002\<close> and changes nothing; no request other than \<open>initialize\<close> changes the
  uninitialized server; \<open>initialize\<close> sets the flag; and once the flag is set it stays set
  through every sequence of requests.
\<close>

theorem session_lifecycle:
  "(\<not> initialized srv \<and> (req_method req = Some ''tools/list'' \<or> req_method req = Some ''tools/call'')
      \<longrightarrow> handle_request rt lg req srv w
          = Some (Inr (Some (Response (req_id req)
                 (Inl (RpcError (- 32002) ''Server not initialized'')))), srv, w))
   \<and> (\<not> initialized srv \<and> req_method req \<noteq> Some ''initialize''
      \<longrightarrow> (\<exists>out. handle_request rt lg req srv w = Some (Inr out, srv, w)))
   \<and> (req_method req = Some ''initialize''
      \<longrightarrow> (\<exists>out. handle_request rt lg req srv w
                  = Some (Inr out, srv\<lparr>initialized := True\<rparr>, w)))
   \<and> (initialized srv \<and> run_requests rt lg reqs srv w = Some (outs, srv', w')
      \<longrightarrow> initialized srv')"
proof (intro conjI impI)
  assume "\<not> initialized srv \<and> (req_method req = Some ''tools/list'' \<or> req_method req = Some ''tools/call'')"
  then show "handle_request rt lg req srv w
          = Some (Inr (Some (Response (req_id req)
                 (Inl (RpcError (- 32002) ''Server not initialized'')))), srv, w)"
    by (auto simp: handle_request_def Let_def send_error_def)
next
  assume "\<not> initialized srv \<and> req_method req \<noteq> Some ''initialize''"
  then show "\<exists>out. handle_request rt lg req srv w = Some (Inr out, srv, w)"
    by (simp add: handle_request_uninitialized)
next
  assume "req_method req = Some ''initialize''"
  then show "\<exists>out. handle_request rt lg req srv w = Some (Inr out, srv\<lparr>initialized := True\<rparr>, w)"
    by (simp add: handle_request_def handle_initialize_def Let_def)
next
  assume "initialized srv \<and> run_requests rt lg reqs srv w = Some (outs, srv', w')"
  then have i: "initialized srv" and r: "run_requests rt lg reqs srv w = Some (outs, srv', w')"
    by simp_all
  from run_requests_initialized [OF i r] show "initialized srv'" .
qed

theorem session_lifecycle_witness:
  "\<not> initialized (new_server example_registry False)
   \<and> handle_request example_runtime no_langgraph
       (tools_call ''check_xcode_cli'' [] (Some (JNum 1))) (new_server example_registry False) 0
     = Some (Inr (Some (Response (Some (JNum 1))
          (Inl (RpcError (- 32002) ''Server not initialized'')))),
          new_server example_registry False, 0)
   \<and> (\<exists>out. handle_request example_runtime no_langgraph
         \<lparr>req_method = Some ''initialize'', req_params = \<lparr>cp_name = None, cp_arguments = []\<rparr>,
          req_id = Some (JNum 0)\<rparr> (new_server example_registry False) 0
       = Some (Inr out, example_server, 0))
   \<and> run_requests example_runtime no_langgraph
       [tools_call ''build_project'' [] (Some (JNum 2)),
        \<lparr>req_method = Some ''shutdown'', req_params = \<lparr>cp_name = None, cp_arguments = []\<rparr>,
         req_id = None\<rparr>] example_server 0
     = Some ([Some (Response (Some (JNum 2))
                (Inl (RpcError (- 32000) ''xcodebuild: error: no project found''))),
              Some (Response None (Inl (RpcError (- 32601) ''Method not found: shutdown'')))],
             example_server, 1)
   \<and> initialized example_server"
proof -
  let ?fresh = "new_server example_registry False :: nat UnifiedMCPServer"
  let ?call = "tools_call ''check_xcode_cli'' [] (Some (JNum 1))"
  let ?init = "\<lparr>req_method = Some ''initialize'',
                req_params = \<lparr>cp_name = None, cp_arguments = []\<rparr>, req_id = Some (JNum 0)\<rparr>"
  let ?reqs = "[tools_call ''build_project'' [] (Some (JNum 2)),
        \<lparr>req_method = Some ''shutdown'', req_params = \<lparr>cp_name = None, cp_arguments = []\<rparr>,
         req_id = None\<rparr>]"
  let ?outs = "[Some (Response (Some (JNum 2))
                (Inl (RpcError (- 32000) ''xcodebuild: error: no project found''))),
              Some (Response None (Inl (RpcError (- 32601) ''Method not found: shutdown'')))]"
  have a: "\<not> initialized ?fresh" by (simp add: new_server_def)
  have b: "req_method ?call = Some ''tools/call''" "req_id ?call = Some (JNum 1)"
    by (simp_all add: tools_call_def)
  have c: "?fresh\<lparr>initialized := True\<rparr> = example_server" by (simp add: example_server_def)
  have d: "run_requests example_runtime no_langgraph ?reqs example_server 0
           = Some (?outs, example_server, 1)"
    by (simp add: run_request_def handle_request_def tools_call_def handle_tools_call_def
        startswith_def example_server_fields execute_and_store_def call_execute_tool_def
        execute_tool_def get_tool_implementation_def example_implementations build_project_def
        send_error_def py_str_def)
  from session_lifecycle [where srv = ?fresh and req = ?call and rt = example_runtime
      and lg = no_langgraph and w = 0] a b
  have 1: "handle_request example_runtime no_langgraph ?call ?fresh 0
     = Some (Inr (Some (Response (Some (JNum 1))
          (Inl (RpcError (- 32002) ''Server not initialized'')))), ?fresh, 0)"
    by simp
  from session_lifecycle [where srv = ?fresh and req = ?init and rt = example_runtime
      and lg = no_langgraph and w = 0] c
  have 2: "\<exists>out. handle_request example_runtime no_langgraph ?init ?fresh 0
       = Some (Inr out, example_server, 0)"
    by simp
  from session_lifecycle [where srv = example_server and reqs = ?reqs and rt = example_runtime
      and lg = no_langgraph and w = 0 and outs = ?outs and srv' = example_server and w' = 1]
    d example_server_fields(1)
  have 3: "initialized example_server" by simp
  from a 1 2 d 3 show ?thesis by simp
qed


section \<open>The response cache\<close>

text \<open>
  Claim C3: take an ordinary tool name and a first call that ran the implementation and
  succeeded with result \<open>r\<close>, and a second call whose arguments have the same sorted
  rendering. If the second call comes less than 300 seconds after the result was stored,
  it is answered with \<open>r\<close> and neither the server nor the world changes: the implementation
  does not run. If it comes later, the implementation runs again, on the world of the
  second call, and its outcome is the answer.
\<close>

theorem response_cache_ttl:
  assumes ordinary: "n \<noteq> []" "\<not> startswith n ''langgraph_''"
    and ttl: "cache_ttl srv = 300"
    and same: "json_dumps rt SortKeys (JDict a2) = json_dumps rt SortKeys (JDict a1)"
    and miss: "live_response rt srv (response_cache_key rt n a1) w1 = None"
    and first: "handle_tools_call rt lg \<lparr>cp_name = Some n, cp_arguments = a1\<rparr> i1 srv w1
                = Some (Inr (Some (Response i1 (Inr r))), srv1, w1')"
  shows "(time_time rt w2 - time_time rt w1' < 300
            \<longrightarrow> handle_tools_call rt lg \<lparr>cp_name = Some n, cp_arguments = a2\<rparr> i2 srv1 w2
                = Some (Inr (Some (Response i2 (Inr r))), srv1, w2))
       \<and> (\<not> time_time rt w2 - time_time rt w1' < 300 \<and> \<not> reserved_key a2
            \<longrightarrow> (\<exists>impl. implementations (registry srv1) n = Some impl
                  \<and> handle_tools_call rt lg \<lparr>cp_name = Some n, cp_arguments = a2\<rparr> i2 srv1 w2
                    = (case impl a2 w2 of
                         (Inr v, w2') \<Rightarrow>
                           Some (Inr (Some (Response i2
                                    (Inr (ContentResult (json_dumps rt Compact v))))),
                                 srv1\<lparr>response_cache :=
                                        (response_cache srv1)(response_cache_key rt n a2 \<mapsto>
                                          (time_time rt w2',
                                           ContentResult (json_dumps rt Compact v)))\<rparr>,
                                 w2')
                       | (Inl e, w2') \<Rightarrow>
                           Some (Inr (Some (Response i2 (Inl (RpcError (- 32000) e)))),
                                 srv1, w2'))))"
proof -
  let ?k = "response_cache_key rt n a1"
  have k2: "response_cache_key rt n a2 = ?k"
    using same by (simp add: response_cache_key_def)
  from first ordinary miss
  have "execute_and_store rt n a1 i1 srv w1 = Some (Inr (Some (Response i1 (Inr r))), srv1, w1')"
    by (simp add: handle_tools_call_ordinary)
  from execute_and_store_result [OF this] obtain v where
    ex: "call_execute_tool (registry srv) n a1 w1 = Inr (Success v, w1')"
    and r: "r = ContentResult (json_dumps rt Compact v)"
    and srv1: "srv1 = srv\<lparr>response_cache := (response_cache srv)(?k \<mapsto> (time_time rt w1', r))\<rparr>"
    by blast
  from call_execute_tool_Inr [OF ex] have "execute_tool (registry srv) n a1 w1 = (Success v, w1')"
    by simp
  from execute_tool_Success [OF this] obtain impl where
    impl: "implementations (registry srv) n = Some impl" by blast
  have live: "live_response rt srv1 ?k w2
              = (if time_time rt w2 - time_time rt w1' < 300 then Some r else None)"
    using ttl by (simp add: live_response_def srv1)
  have hit: "time_time rt w2 - time_time rt w1' < 300 \<longrightarrow>
             handle_tools_call rt lg \<lparr>cp_name = Some n, cp_arguments = a2\<rparr> i2 srv1 w2
                = Some (Inr (Some (Response i2 (Inr r))), srv1, w2)"
    using ordinary by (simp add: handle_tools_call_ordinary k2 live send_result_def)
  have reg1: "registry srv1 = registry srv" by (simp add: srv1)
  have expired: "\<not> time_time rt w2 - time_time rt w1' < 300 \<and> \<not> reserved_key a2 \<longrightarrow>
      handle_tools_call rt lg \<lparr>cp_name = Some n, cp_arguments = a2\<rparr> i2 srv1 w2
                    = (case impl a2 w2 of
                         (Inr v, w2') \<Rightarrow>
                           Some (Inr (Some (Response i2
                                    (Inr (ContentResult (json_dumps rt Compact v))))),
                                 srv1\<lparr>response_cache :=
                                        (response_cache srv1)(response_cache_key rt n a2 \<mapsto>
                                          (time_time rt w2',
                                           ContentResult (json_dumps rt Compact v)))\<rparr>,
                                 w2')
                       | (Inl e, w2') \<Rightarrow>
                           Some (Inr (Some (Response i2 (Inl (RpcError (- 32000) e)))),
                                 srv1, w2'))"
    using ordinary impl
    by (auto simp: handle_tools_call_ordinary k2 live execute_and_store_def
        call_execute_tool_plain execute_tool_bound reg1 send_result_def send_error_def Let_def
        split: prod.splits sum.splits)
  from hit expired impl reg1 show ?thesis by simp
qed


theorem response_cache_ttl_witness:
  "handle_tools_call example_runtime no_langgraph
     \<lparr>cp_name = Some ''check_xcode_cli'', cp_arguments = example_arguments\<rparr>
     (Some (JNum 1)) example_server 10
   = Some (Inr (Some (Response (Some (JNum 1))
        (Inr (ContentResult (example_dumps Compact (JDict [(''installed'', JBool True)])))))),
        example_cached_server, 11)
   \<and> handle_tools_call example_runtime no_langgraph
       \<lparr>cp_name = Some ''check_xcode_cli'', cp_arguments = rev example_arguments\<rparr>
       (Some (JNum 2)) example_cached_server 200
     = Some (Inr (Some (Response (Some (JNum 2))
          (Inr (ContentResult (example_dumps Compact (JDict [(''installed'', JBool True)])))))),
          example_cached_server, 200)
   \<and> handle_tools_call example_runtime no_langgraph
       \<lparr>cp_name = Some ''check_xcode_cli'', cp_arguments = rev example_arguments\<rparr>
       (Some (JNum 3)) example_cached_server 400
     = Some (Inr (Some (Response (Some (JNum 3))
          (Inr (ContentResult (example_dumps Compact (JDict [(''installed'', JBool True)])))))),
          example_cached_server\<lparr>response_cache :=
            (response_cache example_cached_server)
              (response_cache_key example_runtime ''check_xcode_cli'' (rev example_arguments) \<mapsto>
                 (401, ContentResult (example_dumps Compact (JDict [(''installed'', JBool True)]))))\<rparr>,
          401)"
proof -
  let ?n = "''check_xcode_cli''"
  let ?r = "ContentResult (example_dumps Compact (JDict [(''installed'', JBool True)]))"
  have o1: "?n \<noteq> []" by simp
  have o2: "\<not> startswith ?n ''langgraph_''" by (simp add: startswith_def)
  have same: "json_dumps example_runtime SortKeys (JDict (rev example_arguments))
              = json_dumps example_runtime SortKeys (JDict example_arguments)"
    by (simp add: example_runtime_def example_dumps_def example_arguments_def)
  have miss: "live_response example_runtime example_server
                (response_cache_key example_runtime ?n example_arguments) 10 = None"
    by (simp add: live_response_def example_server_fields)
  have nr: "\<not> reserved_key example_arguments" "\<not> reserved_key (rev example_arguments)"
    by (simp_all add: reserved_key_def example_arguments_def)
  have first: "handle_tools_call example_runtime no_langgraph
     \<lparr>cp_name = Some ?n, cp_arguments = example_arguments\<rparr> (Some (JNum 1)) example_server 10
     = Some (Inr (Some (Response (Some (JNum 1)) (Inr ?r))), example_cached_server, 11)"
    using o1 o2 miss nr
    by (simp add: handle_tools_call_ordinary execute_and_store_def call_execute_tool_plain
        execute_tool_bound example_server_fields example_implementations check_xcode_cli_def
        send_result_def example_cached_server_def example_runtime_def Let_def)
  note inst = response_cache_ttl [OF o1 o2 example_server_fields(5) same miss first]
  have i1: "implementations (registry example_cached_server) ?n = Some check_xcode_cli"
    by (simp add: example_cached_server_def example_server_fields example_implementations)
  have t: "time_time example_runtime w = real w" for w by (simp add: example_runtime_def)
  from inst [of 200 "Some (JNum 2)"] have hit:
    "handle_tools_call example_runtime no_langgraph
       \<lparr>cp_name = Some ?n, cp_arguments = rev example_arguments\<rparr>
       (Some (JNum 2)) example_cached_server 200
     = Some (Inr (Some (Response (Some (JNum 2)) (Inr ?r))), example_cached_server, 200)"
    by (simp add: t)
  from inst [of 400 "Some (JNum 3)"] nr i1 have expired:
    "handle_tools_call example_runtime no_langgraph
       \<lparr>cp_name = Some ?n, cp_arguments = rev example_arguments\<rparr>
       (Some (JNum 3)) example_cached_server 400
     = Some (Inr (Some (Response (Some (JNum 3)) (Inr ?r))),
          example_cached_server\<lparr>response_cache :=
            (response_cache example_cached_server)
              (response_cache_key example_runtime ?n (rev example_arguments) \<mapsto> (401, ?r))\<rparr>,
          401)"
    by (simp add: t check_xcode_cli_def example_runtime_def)
  from first hit expired show ?thesis by simp
qed

section \<open>The orchestration loop\<close>

text \<open>
  The example registry binds three of the eight key tools. Each wrapper is named
  \<open>tool_wrapper\<close>; the registry name is kept in \<open>__name__\<close> only.
\<close>

lemma example_tools:
  "create_tools example_registry =
     [\<lparr>lc_name = ''tool_wrapper'', lc_description = ''Tool wrapper for MCP tool execution.'',
       lc_dunder_name = ''list_projects'', lc_dunder_doc = ''Execute list_projects tool'',
       lc_func = list_projects\<rparr>,
      \<lparr>lc_name = ''tool_wrapper'', lc_description = ''Tool wrapper for MCP tool execution.'',
       lc_dunder_name = ''check_xcode_cli'', lc_dunder_doc = ''Execute check_xcode_cli tool'',
       lc_func = check_xcode_cli\<rparr>,
      \<lparr>lc_name = ''tool_wrapper'', lc_description = ''Tool wrapper for MCP tool execution.'',
       lc_dunder_name = ''build_project'', lc_dunder_doc = ''Execute build_project tool'',
       lc_func = build_project\<rparr>]"
  by (simp add: create_tools_def key_tools_def get_tool_implementation_def example_implementations
      example_registry_def new_registry_def example_catalog_def example_def_def
      load_implementations_def example_modules_def dir_names_def getattr_def startswith_def)

lemma run_nodes_fail:
  "0 < n \<Longrightarrow> agent_node reason st = Inl e \<Longrightarrow>
   run_nodes n rt reason tls AgentNode st w = (Inl e, w)"
  by (cases n) simp_all

lemma run_nodes_end:
  "0 < n \<Longrightarrow> agent_node reason st = Inr st1 \<Longrightarrow> \<not> should_continue st1 \<Longrightarrow>
   run_nodes n rt reason tls AgentNode st w = (Inr st1, w)"
  by (cases n) simp_all

lemma tools_node_after_agent:
  assumes "messages st \<noteq> []" "last (messages st) = AIMessage c tcs fc"
  shows "\<exists>st2 w2. tools_node rt tls st w = Inr (st2, w2)"
  using assms by (simp add: tools_node_def split: prod.splits)

lemma run_nodes_always_requests:
  assumes "always_requests reason"
  shows "fst (run_nodes n rt reason tls AgentNode st w) = Inl (recursion_error rt)
         \<and> (messages st \<noteq> [] \<and> (\<exists>c tcs fc. last (messages st) = AIMessage c tcs fc)
              \<longrightarrow> fst (run_nodes n rt reason tls ToolsNode st w) = Inl (recursion_error rt))"
proof (induction n arbitrary: st w)
  case 0
  show ?case by simp
next
  case (Suc n)
  from assms obtain c tcs fc where l: "reason (messages st) = Inr (AIMessage c tcs fc)" "tcs \<noteq> []"
    unfolding always_requests_def by blast
  let ?st1 = "st\<lparr>messages := messages st @ [AIMessage c tcs fc]\<rparr>"
  have an: "agent_node reason st = Inr ?st1" using l by (simp add: agent_node_def)
  have sc: "should_continue ?st1" using l by (simp add: should_continue_def)
  have ok1: "messages ?st1 \<noteq> [] \<and> (\<exists>c tcs fc. last (messages ?st1) = AIMessage c tcs fc)"
    by simp
  have a: "fst (run_nodes (Suc n) rt reason tls AgentNode st w) = Inl (recursion_error rt)"
    using an sc Suc.IH [of ?st1 w] ok1 by simp
  have t: "messages st \<noteq> [] \<and> (\<exists>c tcs fc. last (messages st) = AIMessage c tcs fc)
           \<longrightarrow> fst (run_nodes (Suc n) rt reason tls ToolsNode st w) = Inl (recursion_error rt)"
  proof
    assume "messages st \<noteq> [] \<and> (\<exists>c tcs fc. last (messages st) = AIMessage c tcs fc)"
    then obtain c' tcs' fc' where m: "messages st \<noteq> []" "last (messages st) = AIMessage c' tcs' fc'"
      by blast
    from tools_node_after_agent [OF m, of rt tls w] obtain st2 w2 where
      tn: "tools_node rt tls st w = Inr (st2, w2)" by blast
    show "fst (run_nodes (Suc n) rt reason tls ToolsNode st w) = Inl (recursion_error rt)"
      using tn Suc.IH [of st2 w2] by simp
  qed
  from a t show ?case by simp
qed

lemma run_nodes_within_limit:
  "fst (run_nodes n rt reason tls nd st w) \<noteq> Inl (recursion_error rt) \<Longrightarrow>
   run_nodes (n + k) rt reason tls nd st w = run_nodes n rt reason tls nd st w"
proof (induction n arbitrary: nd st w)
  case 0
  then show ?case by simp
next
  case (Suc n)
  show ?case
  proof (cases nd)
    case AgentNode
    with Suc show ?thesis
      by (auto split: sum.splits if_splits)
  next
    case ToolsNode
    with Suc show ?thesis
      by (auto split: sum.splits prod.splits)
  qed
qed

lemma handle_langgraph_tool_answers:
  "\<exists>resp w'. handle_langgraph_tool rt ags srv tool_name arguments i w = Some (resp, w')"
  by (auto simp: handle_langgraph_tool_def split: sum.splits prod.splits)

lemma handle_langgraph_agent_failure:
  assumes "truthy_opt (map_of arguments ''prompt'')"
    and "acquire_agent ags
           (case map_of arguments ''model'' of None \<Rightarrow> default_model | Some m \<Rightarrow> m)
           (map_of arguments ''persona'') = Inr ag"
    and "run_sync rt ag (the (map_of arguments ''prompt'')) w = (Inl e, w')"
  shows "handle_langgraph_tool rt ags srv ''langgraph_agent'' arguments i w
         = Some (Response i (Inl (RpcError (- 32000) (''Tool execution failed: '' @ e))), w')"
  using assms by (simp add: handle_langgraph_tool_def tool_execution_failed_def send_error_def)

lemma handle_langgraph_workflow_failure:
  assumes "truthy_opt (map_of arguments ''workflow'')"
    and "acquire_agent ags default_model (map_of arguments ''persona'') = Inr ag"
    and "run_sync rt ag
           (JStr (workflow_prompt rt (the (map_of arguments ''workflow''))
              (case map_of arguments ''context'' of None \<Rightarrow> JDict [] | Some c \<Rightarrow> c))) w
         = (Inl e, w')"
  shows "handle_langgraph_tool rt ags srv ''langgraph_workflow'' arguments i w
         = Some (Response i (Inl (RpcError (- 32000) (''Tool execution failed: '' @ e))), w')"
  using assms by (simp add: handle_langgraph_tool_def tool_execution_failed_def send_error_def)

lemma example_invoke_list_projects:
  "tool_invoke example_runtime
     \<lparr>lc_name = ''tool_wrapper'', lc_description = d, lc_dunder_name = n, lc_dunder_doc = d',
      lc_func = list_projects\<rparr> kw w
   = (if w = 1 then Inl ''mdfind: timed out'' else Inr ''{}'', Suc w)"
  by (simp add: tool_invoke_def list_projects_def example_runtime_def example_dumps_def)

lemma example_act:
  "tools_node example_runtime (create_tools example_registry) example_act_state 0
   = Inr (example_act_state
            \<lparr>messages := messages example_act_state
                           @ [ToolMessage ''{}'' ''a'', ToolMessage ''{}'' ''c''],
             tool_results := example_act_results\<rparr>, Suc (Suc (Suc 0)))"
  by (simp add: tools_node_def example_act_state_def example_tools run_tool_call_def ask_def
      example_invoke_list_projects example_act_results_def)

lemma example_first_round:
  "agent_node fails_after_one (initial_state (JStr ''check my setup'')) = Inr example_asked_state"
  "should_continue example_asked_state"
  "tools_node example_runtime (create_tools example_registry) example_asked_state 0
   = Inr (example_partial_state, Suc 0)"
  "agent_node fails_after_one example_partial_state = Inl ''connection refused''"
  by (simp_all add: agent_node_def fails_after_one_def initial_state_def should_continue_def
      tools_node_def example_tools run_tool_call_def ask_def example_invoke_list_projects
      example_partial_state_def example_asked_state_def)

lemma run_nodes_round_numeral:
  assumes "agent_node reason st = Inr st1" "should_continue st1"
    "tools_node rt tls st1 w = Inr (st2, w2)" "Suc 0 < n"
  shows "run_nodes n rt reason tls AgentNode st w
         = run_nodes (n - 2) rt reason tls AgentNode st2 w2"
proof -
  from assms(4) obtain m where n: "n = Suc (Suc m)"
    by (cases n; cases "n - 1") auto
  show ?thesis unfolding n using assms(1-3) by simp
qed

lemma wrap_tools_names:
  "map lc_name (wrap_tools reg ns) = replicate (length (wrap_tools reg ns)) ''tool_wrapper''"
  by (induction ns) (auto split: option.splits simp: Let_def)

lemma wrap_tools_dunder_names:
  "map lc_dunder_name (wrap_tools reg ns)
   = filter (\<lambda>n. map_of (tools reg) n \<noteq> None \<and> get_tool_implementation reg n \<noteq> None) ns"
  by (induction ns) (auto split: option.splits simp: Let_def)

lemma wrap_tools_find_other:
  "n \<noteq> ''tool_wrapper'' \<Longrightarrow> find (\<lambda>t. lc_name t = n) (wrap_tools reg ns) = None"
  by (induction ns) (auto split: option.splits simp: Let_def)

lemma wrap_tools_find_first:
  assumes "wrap_tools reg ns = t # ts"
  shows "find (\<lambda>t. lc_name t = ''tool_wrapper'') (wrap_tools reg ns) = Some t"
proof -
  have "map lc_name (t # ts) = replicate (length (t # ts)) ''tool_wrapper''"
    using wrap_tools_names [of reg ns] assms by simp
  hence "lc_name t = ''tool_wrapper''" by simp
  thus ?thesis using assms by simp
qed

lemma run_tool_call_raises:
  assumes "find (\<lambda>t. lc_name t = tc_name tc) tls = Some t"
    and "tool_invoke rt t (tc_args tc) w = (Inl e, w')"
  shows "run_tool_call rt tls tc (msgs, results, w)
         = (msgs, results @ [ToolResult (tc_name tc) None (Some e) False], w')"
  using assms by (simp add: run_tool_call_def)

lemma run_tool_call_returns:
  assumes "find (\<lambda>t. lc_name t = tc_name tc) tls = Some t"
    and "tool_invoke rt t (tc_args tc) w = (Inr r, w')"
    and "tc_id tc = Some i" "i \<noteq> []"
  shows "run_tool_call rt tls tc (msgs, results, w)
         = (msgs @ [ToolMessage r i], results @ [ToolResult (tc_name tc) (Some r) None True], w')"
  using assms by (simp add: run_tool_call_def Let_def)

lemma run_tool_call_unknown:
  assumes "find (\<lambda>t. lc_name t = tc_name tc) tls = None"
  shows "run_tool_call rt tls tc acc = acc"
  using assms by (simp add: run_tool_call_def split: prod.splits)

lemma example_acquire:
  "acquire_agent (example_agents reason) m None = Inr (example_agent reason)"
  by (simp add: acquire_agent_def example_agents_def truthy_opt_def)

lemma example_failing_run:
  "run_sync example_runtime (example_agent fails_after_one) (JStr ''check my setup'') 0
   = (Inl ''connection refused'', Suc 0)"
proof -
  have "run_nodes 25 example_runtime fails_after_one (create_tools example_registry) AgentNode
          (initial_state (JStr ''check my setup'')) 0
        = run_nodes (25 - 2) example_runtime fails_after_one (create_tools example_registry)
            AgentNode example_partial_state (Suc 0)"
    by (rule run_nodes_round_numeral [OF example_first_round(1-3)]) simp
  also have "\<dots> = (Inl ''connection refused'', Suc 0)"
    by (rule run_nodes_fail [OF _ example_first_round(4)]) simp
  finally show ?thesis
    by (simp add: run_sync_def run_graph_def example_agent_def example_runtime_def)
qed

lemma example_plan:
  "agent_node plans_then_answers (initial_state (JStr ''set up'')) = Inr example_act_state"
  "should_continue example_act_state"
  by (simp_all add: agent_node_def plans_then_answers_def initial_state_def should_continue_def
      example_act_state_def)

lemma example_answer:
  "agent_node plans_then_answers
     (example_act_state
        \<lparr>messages := messages example_act_state
                       @ [ToolMessage ''{}'' ''a'', ToolMessage ''{}'' ''c''],
         tool_results := example_act_results\<rparr>)
   = Inr \<lparr>messages = [HumanMessage (JStr ''set up''),
                       AIMessage (JStr [])
                         [ask ''tool_wrapper'' ''a'', ask ''tool_wrapper'' ''b'',
                          ask ''tool_wrapper'' ''c''] False,
                       ToolMessage ''{}'' ''a'', ToolMessage ''{}'' ''c'',
                       AIMessage (JStr ''done'') [] False],
          tool_results = example_act_results, current_task = JStr ''set up''\<rparr>"
  by (simp add: agent_node_def plans_then_answers_def example_act_state_def)

lemma example_act_run:
  "run_sync example_runtime (example_agent plans_then_answers) (JStr ''set up'') 0
   = (Inr \<lparr>messages = [HumanMessage (JStr ''set up''),
                       AIMessage (JStr [])
                         [ask ''tool_wrapper'' ''a'', ask ''tool_wrapper'' ''b'',
                          ask ''tool_wrapper'' ''c''] False,
                       ToolMessage ''{}'' ''a'', ToolMessage ''{}'' ''c'',
                       AIMessage (JStr ''done'') [] False],
          tool_results = example_act_results, current_task = JStr ''set up''\<rparr>,
      Suc (Suc (Suc 0)))"
proof -
  have "run_nodes 25 example_runtime plans_then_answers (create_tools example_registry) AgentNode
          (initial_state (JStr ''set up'')) 0
        = run_nodes (25 - 2) example_runtime plans_then_answers (create_tools example_registry)
            AgentNode
            (example_act_state
               \<lparr>messages := messages example_act_state
                              @ [ToolMessage ''{}'' ''a'', ToolMessage ''{}'' ''c''],
                tool_results := example_act_results\<rparr>) (Suc (Suc (Suc 0)))"
    by (rule run_nodes_round_numeral [OF example_plan example_act]) simp
  also have "\<dots> = (Inr \<lparr>messages = [HumanMessage (JStr ''set up''),
                       AIMessage (JStr [])
                         [ask ''tool_wrapper'' ''a'', ask ''tool_wrapper'' ''b'',
                          ask ''tool_wrapper'' ''c''] False,
                       ToolMessage ''{}'' ''a'', ToolMessage ''{}'' ''c'',
                       AIMessage (JStr ''done'') [] False],
          tool_results = example_act_results, current_task = JStr ''set up''\<rparr>,
      Suc (Suc (Suc 0)))"
    by (rule run_nodes_end [OF _ example_answer]) (simp_all add: should_continue_def)
  finally show ?thesis
    by (simp add: run_sync_def run_graph_def example_agent_def example_runtime_def)
qed

lemma example_find_tool_wrapper:
  "find (\<lambda>t. lc_name t = tc_name (ask ''tool_wrapper'' i)) (create_tools example_registry)
   = Some \<lparr>lc_name = ''tool_wrapper'', lc_description = ''Tool wrapper for MCP tool execution.'',
           lc_dunder_name = ''list_projects'', lc_dunder_doc = ''Execute list_projects tool'',
           lc_func = list_projects\<rparr>"
  by (simp add: example_tools ask_def)

lemma example_asks: "always_requests always_asks"
  unfolding always_requests_def always_asks_def by blast

lemma run_graph_always_requests:
  "always_requests reason \<Longrightarrow>
   fst (run_graph rt reason tls st w) = Inl (recursion_error rt)"
  unfolding run_graph_def by (rule run_nodes_always_requests [THEN conjunct1])

lemma run_graph_within_limit:
  "run_graph rt reason tls st w = run_nodes (recursion_limit rt + k) rt reason tls AgentNode st w
   \<or> fst (run_graph rt reason tls st w) = Inl (recursion_error rt)"
  unfolding run_graph_def using run_nodes_within_limit [of "recursion_limit rt" rt reason tls
      AgentNode st w k] by auto

lemma handle_langgraph_agent_bound:
  assumes "always_requests (agent_llm ag)"
    and "truthy_opt (map_of arguments ''prompt'')"
    and "acquire_agent ags
           (case map_of arguments ''model'' of None \<Rightarrow> default_model | Some m \<Rightarrow> m)
           (map_of arguments ''persona'') = Inr ag"
  shows "handle_langgraph_tool rt ags srv ''langgraph_agent'' arguments i w
         = Some (Response i (Inl (RpcError (- 32000)
                   (''Tool execution failed: '' @ recursion_error rt))),
                 snd (run_sync rt ag (the (map_of arguments ''prompt'')) w))"
proof -
  have "fst (run_sync rt ag (the (map_of arguments ''prompt'')) w) = Inl (recursion_error rt)"
    unfolding run_sync_def by (rule run_graph_always_requests [OF assms(1)])
  hence "run_sync rt ag (the (map_of arguments ''prompt'')) w
         = (Inl (recursion_error rt), snd (run_sync rt ag (the (map_of arguments ''prompt'')) w))"
    by (metis prod.collapse)
  from handle_langgraph_agent_failure [OF assms(2,3) this] show ?thesis .
qed

subsection \<open>A failure of the reasoning function\<close>

text \<open>
  Claim C2, as the specification states it: when the reasoning function fails, the state
  gathered so far (the messages and the tool results) is handed back to the caller. Here
  the reasoning function asks for one tool and raises on its second turn. The act step in
  between has recorded a result and a tool message, yet the run ends with the exception
  alone and the dispatcher answers with the error \<open>-32000\<close>: neither the messages nor the
  results are in the answer.
\<close>

theorem reasoning_failure_partial_state_counterexample:
  "tools_node example_runtime (create_tools example_registry) example_asked_state 0
     = Inr (example_partial_state, 1)
   \<and> agent_node fails_after_one example_partial_state = Inl ''connection refused''
   \<and> run_sync example_runtime (example_agent fails_after_one) (JStr ''check my setup'') 0
       = (Inl ''connection refused'', 1)
   \<and> handle_langgraph_tool example_runtime (example_agents fails_after_one) example_server
        ''langgraph_agent'' [(''prompt'', JStr ''check my setup'')] (Some (JNum 9)) 0
       = Some (Response (Some (JNum 9))
                 (Inl (RpcError (- 32000) ''Tool execution failed: connection refused'')), 1)"
proof -
  have a: "tools_node example_runtime (create_tools example_registry) example_asked_state 0
           = Inr (example_partial_state, 1)"
    using example_first_round(3) by simp
  have b: "run_sync example_runtime (example_agent fails_after_one) (JStr ''check my setup'') 0
           = (Inl ''connection refused'', 1)"
    using example_failing_run by simp
  have c: "handle_langgraph_tool example_runtime (example_agents fails_after_one) example_server
        ''langgraph_agent'' [(''prompt'', JStr ''check my setup'')] (Some (JNum 9)) 0
       = Some (Response (Some (JNum 9))
                 (Inl (RpcError (- 32000) ''Tool execution failed: connection refused'')), 1)"
    by (rule handle_langgraph_agent_failure [where ag = "example_agent fails_after_one",
          THEN trans])
       (simp_all add: truthy_opt_def example_acquire b)
  show ?thesis by (rule conjI [OF a conjI [OF example_first_round(4) conjI [OF b c]]])
qed

text \<open>
  Claim C2, amended: when the reasoning function raises, at whatever round, the run ends at
  once with that exception and without another step, whatever number of node executions
  the executor still allows (a round of a reasoning step that asks for tools and an act
  step leads to the next reasoning step, where this applies again); and the dispatcher
  answers the \<open>langgraph_agent\<close> or \<open>langgraph_workflow\<close> call with the error \<open>-32000\<close> and
  the text \<open>Tool execution failed:\<close> followed by the message of the exception. The
  conversation and the results gathered before the failure are not part of the answer.
\<close>

theorem reasoning_failure_ends_run:
  "(agent_node reason st = Inl e \<longrightarrow>
      run_nodes (Suc n) rt reason tls AgentNode st w = (Inl e, w))
   \<and> (agent_node reason st = Inr st1 \<and> should_continue st1
        \<and> tools_node rt tls st1 w = Inr (st2, w2) \<longrightarrow>
      run_nodes (Suc (Suc n)) rt reason tls AgentNode st w
        = run_nodes n rt reason tls AgentNode st2 w2)
   \<and> (truthy_opt (map_of arguments ''prompt'')
        \<and> acquire_agent ags
             (case map_of arguments ''model'' of None \<Rightarrow> default_model | Some m \<Rightarrow> m)
             (map_of arguments ''persona'') = Inr ag
        \<and> run_sync rt ag (the (map_of arguments ''prompt'')) w = (Inl e, w') \<longrightarrow>
      handle_langgraph_tool rt ags srv ''langgraph_agent'' arguments i w
        = Some (Response i (Inl (RpcError (- 32000) (''Tool execution failed: '' @ e))), w'))
   \<and> (truthy_opt (map_of arguments ''workflow'')
        \<and> acquire_agent ags default_model (map_of arguments ''persona'') = Inr ag
        \<and> run_sync rt ag
             (JStr (workflow_prompt rt (the (map_of arguments ''workflow''))
                (case map_of arguments ''context'' of None \<Rightarrow> JDict [] | Some c \<Rightarrow> c))) w
           = (Inl e, w') \<longrightarrow>
      handle_langgraph_tool rt ags srv ''langgraph_workflow'' arguments i w
        = Some (Response i (Inl (RpcError (- 32000) (''Tool execution failed: '' @ e))), w'))"
proof -
  have a: "agent_node reason st = Inl e \<longrightarrow>
      run_nodes (Suc n) rt reason tls AgentNode st w = (Inl e, w)"
    by simp
  have b: "agent_node reason st = Inr st1 \<and> should_continue st1
        \<and> tools_node rt tls st1 w = Inr (st2, w2) \<longrightarrow>
      run_nodes (Suc (Suc n)) rt reason tls AgentNode st w
        = run_nodes n rt reason tls AgentNode st2 w2"
    by simp
  have c: "truthy_opt (map_of arguments ''prompt'')
        \<and> acquire_agent ags
             (case map_of arguments ''model'' of None \<Rightarrow> default_model | Some m \<Rightarrow> m)
             (map_of arguments ''persona'') = Inr ag
        \<and> run_sync rt ag (the (map_of arguments ''prompt'')) w = (Inl e, w') \<longrightarrow>
      handle_langgraph_tool rt ags srv ''langgraph_agent'' arguments i w
        = Some (Response i (Inl (RpcError (- 32000) (''Tool execution failed: '' @ e))), w')"
    (is "?P \<longrightarrow> ?Q")
  proof (intro impI)
    assume h: "?P"
    show "?Q"
      by (rule handle_langgraph_agent_failure [OF h [THEN conjunct1]
            h [THEN conjunct2, THEN conjunct1] h [THEN conjunct2, THEN conjunct2]])
  qed
  have d: "truthy_opt (map_of arguments ''workflow'')
        \<and> acquire_agent ags default_model (map_of arguments ''persona'') = Inr ag
        \<and> run_sync rt ag
             (JStr (workflow_prompt rt (the (map_of arguments ''workflow''))
                (case map_of arguments ''context'' of None \<Rightarrow> JDict [] | Some c \<Rightarrow> c))) w
           = (Inl e, w') \<longrightarrow>
      handle_langgraph_tool rt ags srv ''langgraph_workflow'' arguments i w
        = Some (Response i (Inl (RpcError (- 32000) (''Tool execution failed: '' @ e))), w')"
    (is "?P \<longrightarrow> ?Q")
  proof (intro impI)
    assume h: "?P"
    show "?Q"
      by (rule handle_langgraph_workflow_failure [OF h [THEN conjunct1]
            h [THEN conjunct2, THEN conjunct1] h [THEN conjunct2, THEN conjunct2]])
  qed
  show ?thesis by (rule conjI [OF a conjI [OF b conjI [OF c d]]])
qed

theorem reasoning_failure_ends_run_witness:
  "agent_node fails_after_one example_partial_state = Inl ''connection refused''
   \<and> run_nodes (Suc 0) example_runtime fails_after_one (create_tools example_registry)
       AgentNode example_partial_state 1 = (Inl ''connection refused'', 1)
   \<and> run_nodes (Suc (Suc (Suc 0))) example_runtime fails_after_one
       (create_tools example_registry) AgentNode (initial_state (JStr ''check my setup'')) 0
     = run_nodes (Suc 0) example_runtime fails_after_one (create_tools example_registry)
         AgentNode example_partial_state (Suc 0)
   \<and> handle_langgraph_tool example_runtime (example_agents fails_after_one) example_server
       ''langgraph_agent'' [(''prompt'', JStr ''check my setup'')] (Some (JStr ''r1'')) 0
     = Some (Response (Some (JStr ''r1''))
               (Inl (RpcError (- 32000) ''Tool execution failed: connection refused'')), 1)"
proof -
  let ?args = "[(''prompt'', JStr ''check my setup'')]"
  note a = reasoning_failure_ends_run [of fails_after_one example_partial_state
      "''connection refused''" 0 example_runtime "create_tools example_registry" 1,
      THEN conjunct1, THEN mp, OF example_first_round(4)]
  note b = reasoning_failure_ends_run [of fails_after_one
      "initial_state (JStr ''check my setup'')" _ "Suc 0"
      example_runtime "create_tools example_registry" 0 example_asked_state
      example_partial_state "Suc 0",
      THEN conjunct2, THEN conjunct1, THEN mp,
      OF conjI [OF example_first_round(1) conjI [OF example_first_round(2) example_first_round(3)]]]
  have p: "truthy_opt (map_of ?args ''prompt'')" by (simp add: truthy_opt_def)
  have q: "acquire_agent (example_agents fails_after_one)
             (case map_of ?args ''model'' of None \<Rightarrow> default_model | Some m \<Rightarrow> m)
             (map_of ?args ''persona'') = Inr (example_agent fails_after_one)"
    by (simp add: example_acquire)
  have r: "run_sync example_runtime (example_agent fails_after_one)
             (the (map_of ?args ''prompt'')) 0 = (Inl ''connection refused'', 1)"
    using example_failing_run by simp
  note c = reasoning_failure_ends_run [where arguments = ?args
      and ags = "example_agents fails_after_one"
      and ag = "example_agent fails_after_one" and rt = example_runtime and w = 0
      and e = "''connection refused''" and w' = 1 and srv = example_server
      and i = "Some (JStr ''r1'')",
      THEN conjunct2, THEN conjunct2, THEN conjunct1, THEN mp, OF conjI [OF p conjI [OF q r]]]
  have c': "handle_langgraph_tool example_runtime (example_agents fails_after_one) example_server
       ''langgraph_agent'' ?args (Some (JStr ''r1'')) 0
     = Some (Response (Some (JStr ''r1''))
               (Inl (RpcError (- 32000) ''Tool execution failed: connection refused'')), 1)"
    using c by simp
  show ?thesis
    by (rule conjI [OF example_first_round(4) conjI [OF a conjI [OF b c']]])
qed

subsection \<open>A tool that raises in the act step\<close>

text \<open>
  Claim C7: the calls of an act step are run in the order given, and a call whose tool
  raises is recorded and answered like the others. In the code the \<open>except\<close> branch
  appends the failure to \<open>tool_results\<close> and nothing to \<open>messages\<close>: the conversation
  gets no message for the failed call. With three calls \<open>a\<close>, \<open>b\<close>, \<open>c\<close> of which the
  second raises, the three results are recorded in order (success, failure, success), the
  messages appended are those tagged \<open>a\<close> and \<open>c\<close> and none is tagged \<open>b\<close>; the run goes
  on to the next reasoning step and ends with its answer.
\<close>

theorem tools_node_failure_without_message:
  "(find (\<lambda>t. lc_name t = tc_name tc) tls = Some t
      \<and> tool_invoke rt t (tc_args tc) w = (Inl e, w') \<longrightarrow>
    run_tool_call rt tls tc (msgs, results, w)
      = (msgs, results @ [ToolResult (tc_name tc) None (Some e) False], w'))
   \<and> tools_node example_runtime (create_tools example_registry) example_act_state 0
     = Inr (example_act_state
              \<lparr>messages := messages example_act_state
                             @ [ToolMessage ''{}'' ''a'', ToolMessage ''{}'' ''c''],
               tool_results := example_act_results\<rparr>, 3)
   \<and> run_sync example_runtime (example_agent plans_then_answers) (JStr ''set up'') 0
     = (Inr \<lparr>messages = [HumanMessage (JStr ''set up''),
                         AIMessage (JStr [])
                           [ask ''tool_wrapper'' ''a'', ask ''tool_wrapper'' ''b'',
                            ask ''tool_wrapper'' ''c''] False,
                         ToolMessage ''{}'' ''a'', ToolMessage ''{}'' ''c'',
                         AIMessage (JStr ''done'') [] False],
            tool_results = example_act_results, current_task = JStr ''set up''\<rparr>, 3)"
proof -
  have three: "(3::nat) = Suc (Suc (Suc 0))" by simp
  have a: "find (\<lambda>t. lc_name t = tc_name tc) tls = Some t
      \<and> tool_invoke rt t (tc_args tc) w = (Inl e, w') \<longrightarrow>
    run_tool_call rt tls tc (msgs, results, w)
      = (msgs, results @ [ToolResult (tc_name tc) None (Some e) False], w')"
    (is "?P \<longrightarrow> ?Q")
  proof (intro impI)
    assume h: "?P"
    show "?Q" by (rule run_tool_call_raises [OF h [THEN conjunct1] h [THEN conjunct2]])
  qed
  have b: "tools_node example_runtime (create_tools example_registry) example_act_state 0
     = Inr (example_act_state
              \<lparr>messages := messages example_act_state
                             @ [ToolMessage ''{}'' ''a'', ToolMessage ''{}'' ''c''],
               tool_results := example_act_results\<rparr>, 3)"
    unfolding three by (rule example_act)
  have c: "run_sync example_runtime (example_agent plans_then_answers) (JStr ''set up'') 0
     = (Inr \<lparr>messages = [HumanMessage (JStr ''set up''),
                         AIMessage (JStr [])
                           [ask ''tool_wrapper'' ''a'', ask ''tool_wrapper'' ''b'',
                            ask ''tool_wrapper'' ''c''] False,
                         ToolMessage ''{}'' ''a'', ToolMessage ''{}'' ''c'',
                         AIMessage (JStr ''done'') [] False],
            tool_results = example_act_results, current_task = JStr ''set up''\<rparr>, 3)"
    unfolding three by (rule example_act_run)
  show ?thesis by (rule conjI [OF a conjI [OF b c]])
qed

theorem tools_node_failure_without_message_witness:
  "run_tool_call example_runtime (create_tools example_registry) (ask ''tool_wrapper'' ''b'')
     ([HumanMessage (JStr ''set up''), ToolMessage ''{}'' ''a''],
      [ToolResult ''tool_wrapper'' (Some ''{}'') None True], 1)
   = ([HumanMessage (JStr ''set up''), ToolMessage ''{}'' ''a''],
      [ToolResult ''tool_wrapper'' (Some ''{}'') None True,
       ToolResult ''tool_wrapper'' None (Some ''mdfind: timed out'') False], 2)"
proof -
  have i: "tool_invoke example_runtime
             \<lparr>lc_name = ''tool_wrapper'', lc_description = ''Tool wrapper for MCP tool execution.'',
              lc_dunder_name = ''list_projects'', lc_dunder_doc = ''Execute list_projects tool'',
              lc_func = list_projects\<rparr> (tc_args (ask ''tool_wrapper'' ''b'')) 1
           = (Inl ''mdfind: timed out'', 2)"
    by (simp add: example_invoke_list_projects)
  note inst = tools_node_failure_without_message [THEN conjunct1, THEN mp,
      OF conjI [OF example_find_tool_wrapper i]]
  show ?thesis using inst [of "[HumanMessage (JStr ''set up''), ToolMessage ''{}'' ''a'']"
      "[ToolResult ''tool_wrapper'' (Some ''{}'') None True]"]
    by (simp add: ask_def)
qed

subsection \<open>The limit of the executor\<close>

text \<open>
  Claim C8: whatever the reasoning function does, an orchestration call is answered. The
  run executes at most \<open>recursion_limit\<close> nodes: either it ends within the limit, and then
  it is the run that any larger limit gives, or it ends with the exception of the executor.
  With a reasoning function that asks for a tool on every turn the run ends with that
  exception, and the dispatcher answers the \<open>langgraph_agent\<close> call with the error
  \<open>-32000\<close> and the text of the exception.
\<close>

theorem run_graph_recursion_limit:
  "(\<exists>resp w'. handle_langgraph_tool rt ags srv tool_name arguments i w = Some (resp, w'))
   \<and> (run_graph rt reason tls st w
         = run_nodes (recursion_limit rt + k) rt reason tls AgentNode st w
       \<or> fst (run_graph rt reason tls st w) = Inl (recursion_error rt))
   \<and> (always_requests reason \<longrightarrow>
        fst (run_graph rt reason tls st w) = Inl (recursion_error rt))
   \<and> (always_requests (agent_llm ag) \<and> truthy_opt (map_of arguments ''prompt'')
        \<and> acquire_agent ags
             (case map_of arguments ''model'' of None \<Rightarrow> default_model | Some m \<Rightarrow> m)
             (map_of arguments ''persona'') = Inr ag \<longrightarrow>
      handle_langgraph_tool rt ags srv ''langgraph_agent'' arguments i w
        = Some (Response i (Inl (RpcError (- 32000)
                  (''Tool execution failed: '' @ recursion_error rt))),
                snd (run_sync rt ag (the (map_of arguments ''prompt'')) w)))"
proof -
  have c: "always_requests reason \<longrightarrow>
        fst (run_graph rt reason tls st w) = Inl (recursion_error rt)"
    by (intro impI) (rule run_graph_always_requests)
  have d: "always_requests (agent_llm ag) \<and> truthy_opt (map_of arguments ''prompt'')
        \<and> acquire_agent ags
             (case map_of arguments ''model'' of None \<Rightarrow> default_model | Some m \<Rightarrow> m)
             (map_of arguments ''persona'') = Inr ag \<longrightarrow>
      handle_langgraph_tool rt ags srv ''langgraph_agent'' arguments i w
        = Some (Response i (Inl (RpcError (- 32000)
                  (''Tool execution failed: '' @ recursion_error rt))),
                snd (run_sync rt ag (the (map_of arguments ''prompt'')) w))"
    (is "?P \<longrightarrow> ?Q")
  proof (intro impI)
    assume h: "?P"
    show "?Q"
      by (rule handle_langgraph_agent_bound [OF h [THEN conjunct1]
            h [THEN conjunct2, THEN conjunct1] h [THEN conjunct2, THEN conjunct2]])
  qed
  show ?thesis
    by (rule conjI [OF handle_langgraph_tool_answers conjI [OF run_graph_within_limit
          conjI [OF c d]]])
qed

theorem run_graph_recursion_limit_witness:
  "always_requests always_asks
   \<and> fst (run_graph example_runtime always_asks (create_tools example_registry)
            (initial_state (JStr ''check my setup'')) 0)
     = Inl ''Recursion limit of 25 reached without hitting a stop condition.''
   \<and> handle_langgraph_tool example_runtime (example_agents always_asks) example_server
       ''langgraph_agent'' [(''prompt'', JStr ''check my setup'')] (Some (JNum 1)) 0
     = Some (Response (Some (JNum 1))
               (Inl (RpcError (- 32000)
                  ''Tool execution failed: Recursion limit of 25 reached without hitting a stop condition.'')),
             snd (run_sync example_runtime (example_agent always_asks)
                    (JStr ''check my setup'') 0))"
proof -
  let ?args = "[(''prompt'', JStr ''check my setup'')]"
  have r: "recursion_error example_runtime
           = ''Recursion limit of 25 reached without hitting a stop condition.''"
    by (simp add: example_runtime_def)
  note a = run_graph_recursion_limit [where reason = always_asks and rt = example_runtime
      and tls = "create_tools example_registry"
      and st = "initial_state (JStr ''check my setup'')" and w = 0,
      THEN conjunct2, THEN conjunct2, THEN conjunct1, THEN mp, OF example_asks]
  have a': "fst (run_graph example_runtime always_asks (create_tools example_registry)
            (initial_state (JStr ''check my setup'')) 0)
     = Inl ''Recursion limit of 25 reached without hitting a stop condition.''"
    using a unfolding r .
  have l: "always_requests (agent_llm (example_agent always_asks))"
    by (simp add: example_agent_def example_asks)
  have p: "truthy_opt (map_of ?args ''prompt'')" by (simp add: truthy_opt_def)
  have q: "acquire_agent (example_agents always_asks)
             (case map_of ?args ''model'' of None \<Rightarrow> default_model | Some m \<Rightarrow> m)
             (map_of ?args ''persona'') = Inr (example_agent always_asks)"
    by (simp add: example_acquire)
  note b = run_graph_recursion_limit [where arguments = ?args
      and ags = "example_agents always_asks" and ag = "example_agent always_asks"
      and rt = example_runtime and w = 0 and srv = example_server and i = "Some (JNum 1)",
      THEN conjunct2, THEN conjunct2, THEN conjunct2, THEN mp, OF conjI [OF l conjI [OF p q]]]
  have b': "handle_langgraph_tool example_runtime (example_agents always_asks) example_server
       ''langgraph_agent'' ?args (Some (JNum 1)) 0
     = Some (Response (Some (JNum 1))
               (Inl (RpcError (- 32000)
                  ''Tool execution failed: Recursion limit of 25 reached without hitting a stop condition.'')),
             snd (run_sync example_runtime (example_agent always_asks)
                    (JStr ''check my setup'') 0))"
    using b unfolding r by simp
  show ?thesis by (rule conjI [OF example_asks conjI [OF a' b']])
qed

subsection \<open>The names of the wrapped tools\<close>

text \<open>
  Claim C10: the loop wraps those of the eight key tools that the registry holds and
  binds, and a requested call that names none of them is skipped. In the code every
  wrapped tool carries the name \<open>tool_wrapper\<close>; the eight names are kept in \<open>__name__\<close>,
  which the act step does not read. So a call under any other name, the eight names
  among them, changes nothing, while a call named \<open>tool_wrapper\<close>, which is none of the
  eight names, runs the first wrapped tool and is recorded and answered.
\<close>

theorem wrapped_tools_share_one_name:
  "map lc_name (create_tools reg) = replicate (length (create_tools reg)) ''tool_wrapper''
   \<and> map lc_dunder_name (create_tools reg)
     = filter (\<lambda>n. map_of (tools reg) n \<noteq> None \<and> get_tool_implementation reg n \<noteq> None)
         key_tools
   \<and> (tc_name tc \<noteq> ''tool_wrapper'' \<longrightarrow> run_tool_call rt (create_tools reg) tc acc = acc)
   \<and> (create_tools reg = t # ts \<and> tc_name tc = ''tool_wrapper''
        \<and> tc_id tc = Some i \<and> i \<noteq> []
        \<and> tool_invoke rt t (tc_args tc) w = (Inr r, w') \<longrightarrow>
      run_tool_call rt (create_tools reg) tc (msgs, results, w)
        = (msgs @ [ToolMessage r i],
           results @ [ToolResult ''tool_wrapper'' (Some r) None True], w'))"
proof -
  have a: "map lc_name (create_tools reg) = replicate (length (create_tools reg)) ''tool_wrapper''"
    unfolding create_tools_def by (rule wrap_tools_names)
  have b: "map lc_dunder_name (create_tools reg)
     = filter (\<lambda>n. map_of (tools reg) n \<noteq> None \<and> get_tool_implementation reg n \<noteq> None)
         key_tools"
    unfolding create_tools_def by (rule wrap_tools_dunder_names)
  have c: "tc_name tc \<noteq> ''tool_wrapper'' \<longrightarrow> run_tool_call rt (create_tools reg) tc acc = acc"
  proof (intro impI)
    assume h: "tc_name tc \<noteq> ''tool_wrapper''"
    show "run_tool_call rt (create_tools reg) tc acc = acc"
      unfolding create_tools_def
      by (rule run_tool_call_unknown [OF wrap_tools_find_other [OF h]])
  qed
  have d: "create_tools reg = t # ts \<and> tc_name tc = ''tool_wrapper''
        \<and> tc_id tc = Some i \<and> i \<noteq> []
        \<and> tool_invoke rt t (tc_args tc) w = (Inr r, w') \<longrightarrow>
      run_tool_call rt (create_tools reg) tc (msgs, results, w)
        = (msgs @ [ToolMessage r i],
           results @ [ToolResult ''tool_wrapper'' (Some r) None True], w')"
    (is "?P \<longrightarrow> ?Q")
  proof (intro impI)
    assume h: "?P"
    from h have h1: "wrap_tools reg key_tools = t # ts" by (simp add: create_tools_def)
    from h have h2: "tc_name tc = ''tool_wrapper''" by (rule conjunct2 [THEN conjunct1])
    from h have h3: "tc_id tc = Some i" "i \<noteq> []"
      "tool_invoke rt t (tc_args tc) w = (Inr r, w')"
      by (rule conjunct2 [THEN conjunct2, THEN conjunct1],
          rule conjunct2 [THEN conjunct2, THEN conjunct2, THEN conjunct1],
          rule conjunct2 [THEN conjunct2, THEN conjunct2, THEN conjunct2])
    have f: "find (\<lambda>t. lc_name t = tc_name tc) (create_tools reg) = Some t"
      unfolding h2 create_tools_def by (rule wrap_tools_find_first [OF h1])
    show "?Q"
      using run_tool_call_returns [OF f h3(3) h3(1) h3(2), of msgs results]
      unfolding h2 .
  qed
  show ?thesis by (rule conjI [OF a conjI [OF b conjI [OF c d]]])
qed

theorem wrapped_tools_share_one_name_witness:
  "map lc_name (create_tools example_registry)
     = [''tool_wrapper'', ''tool_wrapper'', ''tool_wrapper'']
   \<and> map lc_dunder_name (create_tools example_registry)
     = [''list_projects'', ''check_xcode_cli'', ''build_project'']
   \<and> run_tool_call example_runtime (create_tools example_registry)
       (ask ''check_xcode_cli'' ''call_1'') ([HumanMessage (JStr ''check my setup'')], [], 0)
     = ([HumanMessage (JStr ''check my setup'')], [], 0)
   \<and> run_tool_call example_runtime (create_tools example_registry)
       (ask ''tool_wrapper'' ''call_2'') ([HumanMessage (JStr ''check my setup'')], [], 0)
     = ([HumanMessage (JStr ''check my setup''), ToolMessage ''{}'' ''call_2''],
        [ToolResult ''tool_wrapper'' (Some ''{}'') None True], 1)"
proof -
  have a: "map lc_name (create_tools example_registry)
     = [''tool_wrapper'', ''tool_wrapper'', ''tool_wrapper'']"
    by (simp add: example_tools)
  have b: "map lc_dunder_name (create_tools example_registry)
     = [''list_projects'', ''check_xcode_cli'', ''build_project'']"
    by (simp add: example_tools)
  have n: "tc_name (ask ''check_xcode_cli'' ''call_1'') \<noteq> ''tool_wrapper''"
    by (simp add: ask_def)
  note c = wrapped_tools_share_one_name [THEN conjunct2, THEN conjunct2, THEN conjunct1,
      THEN mp, OF n, of example_runtime example_registry
      "([HumanMessage (JStr ''check my setup'')], [], 0)"]
  have h: "create_tools example_registry
           = \<lparr>lc_name = ''tool_wrapper'',
              lc_description = ''Tool wrapper for MCP tool execution.'',
              lc_dunder_name = ''list_projects'', lc_dunder_doc = ''Execute list_projects tool'',
              lc_func = list_projects\<rparr>
             # [\<lparr>lc_name = ''tool_wrapper'',
                 lc_description = ''Tool wrapper for MCP tool execution.'',
                 lc_dunder_name = ''check_xcode_cli'',
                 lc_dunder_doc = ''Execute check_xcode_cli tool'', lc_func = check_xcode_cli\<rparr>,
                \<lparr>lc_name = ''tool_wrapper'',
                 lc_description = ''Tool wrapper for MCP tool execution.'',
                 lc_dunder_name = ''build_project'',
                 lc_dunder_doc = ''Execute build_project tool'', lc_func = build_project\<rparr>]
         \<and> tc_name (ask ''tool_wrapper'' ''call_2'') = ''tool_wrapper''
         \<and> tc_id (ask ''tool_wrapper'' ''call_2'') = Some ''call_2'' \<and> ''call_2'' \<noteq> []
         \<and> tool_invoke example_runtime
              \<lparr>lc_name = ''tool_wrapper'',
               lc_description = ''Tool wrapper for MCP tool execution.'',
               lc_dunder_name = ''list_projects'', lc_dunder_doc = ''Execute list_projects tool'',
               lc_func = list_projects\<rparr> (tc_args (ask ''tool_wrapper'' ''call_2'')) 0
            = (Inr ''{}'', 1)"
    by (simp add: example_tools ask_def example_invoke_list_projects)
  note d = wrapped_tools_share_one_name [THEN conjunct2, THEN conjunct2, THEN conjunct2,
      THEN mp, OF h, of "[HumanMessage (JStr ''check my setup'')]" "[]"]
  have d': "run_tool_call example_runtime (create_tools example_registry)
       (ask ''tool_wrapper'' ''call_2'') ([HumanMessage (JStr ''check my setup'')], [], 0)
     = ([HumanMessage (JStr ''check my setup''), ToolMessage ''{}'' ''call_2''],
        [ToolResult ''tool_wrapper'' (Some ''{}'') None True], 1)"
    using d by simp
  show ?thesis by (rule conjI [OF a conjI [OF b conjI [OF c d']]])
qed

end
